theory Spec2Isabelle
  imports Complex_Main "HOL-Library.Log_Nat"
begin

section \<open>Numbers of the script\<close>

text \<open>
  Every number of \<^verbatim>\<open>ETF.py\<close> is a binary64 float, inside pandas or as a Python
  float. A value is a real number, one of the two infinities, or NaN. pandas reads NaN
  as "missing" (\<^verbatim>\<open>dropna\<close>, \<^verbatim>\<open>fillna\<close>, \<^verbatim>\<open>skipna\<close>); the infinities are ordinary
  values. The sign of zero is not modelled: a zero divisor is \<open>+0\<close>.

  The operations of this section are exact: they leave the rounding of binary64 out.
  What is proved with them is about the branches the script takes and the formulas it
  applies. The rounded operations come further down, and with them the columns and
  statistics as binary64 computes them, for the statements that depend on the last
  digits.
\<close>

datatype fl = Fin real | PInf | NInf | NaN

fun fneg :: "fl \<Rightarrow> fl" where
  "fneg (Fin a) = Fin (- a)"
| "fneg PInf = NInf"
| "fneg NInf = PInf"
| "fneg NaN = NaN"

fun fadd :: "fl \<Rightarrow> fl \<Rightarrow> fl" where
  "fadd NaN _ = NaN"
| "fadd _ NaN = NaN"
| "fadd (Fin a) (Fin b) = Fin (a + b)"
| "fadd PInf NInf = NaN"
| "fadd NInf PInf = NaN"
| "fadd PInf _ = PInf"
| "fadd _ PInf = PInf"
| "fadd NInf _ = NInf"
| "fadd _ NInf = NInf"

definition fsub :: "fl \<Rightarrow> fl \<Rightarrow> fl" where
  "fsub a b = fadd a (fneg b)"

text \<open>An infinity of the sign of a non-zero real.\<close>

definition inf_of_sign :: "real \<Rightarrow> fl" where
  "inf_of_sign s = (if 0 < s then PInf else NInf)"

fun fmul :: "fl \<Rightarrow> fl \<Rightarrow> fl" where
  "fmul NaN _ = NaN"
| "fmul _ NaN = NaN"
| "fmul (Fin a) (Fin b) = Fin (a * b)"
| "fmul (Fin a) PInf = (if a = 0 then NaN else inf_of_sign a)"
| "fmul (Fin a) NInf = (if a = 0 then NaN else inf_of_sign (- a))"
| "fmul PInf (Fin b) = (if b = 0 then NaN else inf_of_sign b)"
| "fmul NInf (Fin b) = (if b = 0 then NaN else inf_of_sign (- b))"
| "fmul PInf PInf = PInf"
| "fmul PInf NInf = NInf"
| "fmul NInf PInf = NInf"
| "fmul NInf NInf = PInf"

text \<open>
  numpy's float division does not raise: \<open>x / 0\<close> is an infinity of the sign of \<open>x\<close>,
  and \<open>0 / 0\<close> is NaN.
\<close>

fun fdiv :: "fl \<Rightarrow> fl \<Rightarrow> fl" where
  "fdiv NaN _ = NaN"
| "fdiv _ NaN = NaN"
| "fdiv (Fin a) (Fin b) =
     (if b = 0 then (if a = 0 then NaN else inf_of_sign a) else Fin (a / b))"
| "fdiv (Fin a) PInf = Fin 0"
| "fdiv (Fin a) NInf = Fin 0"
| "fdiv PInf (Fin b) = (if b < 0 then NInf else PInf)"
| "fdiv NInf (Fin b) = (if b < 0 then PInf else NInf)"
| "fdiv PInf PInf = NaN"
| "fdiv PInf NInf = NaN"
| "fdiv NInf PInf = NaN"
| "fdiv NInf NInf = NaN"

fun fsqrt :: "fl \<Rightarrow> fl" where
  "fsqrt (Fin a) = (if a < 0 then NaN else Fin (sqrt a))"
| "fsqrt PInf = PInf"
| "fsqrt NInf = NaN"
| "fsqrt NaN = NaN"

text \<open>
  \<^verbatim>\<open>x ** y\<close> for a float \<open>x\<close> and a finite Python float \<open>y\<close> (C's \<^verbatim>\<open>pow\<close>):
  a negative base with a fractional exponent is NaN.
\<close>

definition is_integer :: "real \<Rightarrow> bool" where
  "is_integer y = (y = of_int \<lfloor>y\<rfloor>)"

definition odd_integer :: "real \<Rightarrow> bool" where
  "odd_integer y = (is_integer y \<and> odd \<lfloor>y\<rfloor>)"

fun fpow :: "fl \<Rightarrow> real \<Rightarrow> fl" where
  "fpow NaN y = (if y = 0 then Fin 1 else NaN)"
| "fpow (Fin x) y =
     (if y = 0 then Fin 1
      else if 0 < x then Fin (x powr y)
      else if x = 0 then (if 0 < y then Fin 0 else PInf)
      else if is_integer y then Fin (x powi \<lfloor>y\<rfloor>)
      else NaN)"
| "fpow PInf y = (if y = 0 then Fin 1 else if 0 < y then PInf else Fin 0)"
| "fpow NInf y =
     (if y = 0 then Fin 1
      else if 0 < y then (if odd_integer y then NInf else PInf)
      else Fin 0)"

text \<open>Comparison of floats: every comparison with NaN is false.\<close>

fun fle :: "fl \<Rightarrow> fl \<Rightarrow> bool" where
  "fle NaN _ = False"
| "fle _ NaN = False"
| "fle (Fin a) (Fin b) = (a \<le> b)"
| "fle NInf _ = True"
| "fle _ PInf = True"
| "fle PInf _ = False"
| "fle _ NInf = False"

definition isna :: "fl \<Rightarrow> bool" where
  "isna v = (v = NaN)"

fun is_finite :: "fl \<Rightarrow> bool" where
  "is_finite (Fin _) = True"
| "is_finite _ = False"

section \<open>Series\<close>

text \<open>
  A pandas \<^verbatim>\<open>Timestamp\<close> is a count of nanoseconds since the epoch; a \<^verbatim>\<open>Series\<close>
  is a list of index labels with their values, in row order.
\<close>

type_synonym timestamp = int

type_synonym series = "(timestamp \<times> fl) list"

definition index :: "series \<Rightarrow> timestamp list" where
  "index s = map fst s"

definition vals :: "series \<Rightarrow> fl list" where
  "vals s = map snd s"

definition dropna :: "series \<Rightarrow> series" where
  "dropna s = filter (\<lambda>(d, v). \<not> isna v) s"

definition fillna :: "fl \<Rightarrow> series \<Rightarrow> series" where
  "fillna c s = map (\<lambda>(d, v). (d, if isna v then c else v)) s"

definition add :: "fl \<Rightarrow> series \<Rightarrow> series" where
  "add c s = map (\<lambda>(d, v). (d, fadd v c)) s"

definition sub :: "fl \<Rightarrow> series \<Rightarrow> series" where
  "sub c s = map (\<lambda>(d, v). (d, fsub v c)) s"

definition scale :: "fl \<Rightarrow> series \<Rightarrow> series" where
  "scale c s = map (\<lambda>(d, v). (d, fmul c v)) s"

text \<open>
  \<^verbatim>\<open>reindex\<close> reads the values of a series at the given labels, NaN where the series
  has no such label. It is used on series whose labels are distinct.
\<close>

definition reindex :: "timestamp list \<Rightarrow> series \<Rightarrow> series" where
  "reindex idx s = map (\<lambda>d. (d, case map_of s d of None \<Rightarrow> NaN | Some v \<Rightarrow> v)) idx"

text \<open>
  \<^verbatim>\<open>pct_change\<close>: the values divided by the values shifted one row down, minus 1;
  the first row has no predecessor and is NaN.
\<close>

fun pct_vals :: "fl list \<Rightarrow> fl list" where
  "pct_vals [] = []"
| "pct_vals (v # vs) = NaN # map2 (\<lambda>prev cur. fsub (fdiv cur prev) (Fin 1)) (v # vs) vs"

definition pct_change :: "series \<Rightarrow> series" where
  "pct_change s = zip (index s) (pct_vals (vals s))"

text \<open>
  \<^verbatim>\<open>cumprod\<close> skips NaN: such a row is NaN in the result and leaves the running
  product as it was.
\<close>

fun cumprod_from :: "fl \<Rightarrow> fl list \<Rightarrow> fl list" where
  "cumprod_from acc [] = []"
| "cumprod_from acc (v # vs) =
     (if isna v then NaN # cumprod_from acc vs
      else fmul acc v # cumprod_from (fmul acc v) vs)"

definition cumprod :: "series \<Rightarrow> series" where
  "cumprod s = zip (index s) (cumprod_from (Fin 1) (vals s))"

section \<open>The frame of prices and its derived columns\<close>

text \<open>
  What the script can report instead of a result: its three \<^verbatim>\<open>st.error\<close> messages,
  and the exceptions of the float division \<^verbatim>\<open>1/years\<close>, of \<^verbatim>\<open>iloc\<close> and of
  the column assignment.
\<close>

datatype error =
    DateOrderError
  | MissingSymbolError
  | NoDataError string
  | ZeroDivisionError
  | IndexError
  | ValueError

definition bind_res :: "error + 'a \<Rightarrow> ('a \<Rightarrow> error + 'b) \<Rightarrow> error + 'b" where
  "bind_res r f = (case r of Inl e \<Rightarrow> Inl e | Inr v \<Rightarrow> f v)"

text \<open>
  \<^verbatim>\<open>data\<close> as downloaded: the rows of the index with the \<^verbatim>\<open>Adj Close\<close> column,
  a finite price per row.
\<close>

type_synonym frame = "(timestamp \<times> real) list"

definition adj_close :: "frame \<Rightarrow> series" where
  "adj_close data = map (\<lambda>(d, p). (d, Fin p)) data"

text \<open>
  \<^verbatim>\<open>data['col'] = s\<close> takes \<open>s\<close> as it is when its index is the frame's, and
  otherwise aligns it to the frame's index: a label of the frame that \<open>s\<close> lacks gets
  NaN, and pandas refuses a series with a repeated label ("cannot reindex on an axis
  with duplicate labels").
\<close>

definition set_column :: "timestamp list \<Rightarrow> series \<Rightarrow> error + series" where
  "set_column idx s =
     (if index s = idx then Inr s
      else if distinct (index s) then Inr (reindex idx s)
      else Inl ValueError)"

text \<open>
  Lines 67 to 71 of \<^verbatim>\<open>ETF.py\<close>:
  \<^verbatim>\<open>data['Daily Return'] = data['Adj Close'].pct_change().dropna()\<close>,
  \<^verbatim>\<open>data['Cumulative Return'] = data['Adj Close'].pct_change().fillna(0).add(1).cumprod()\<close>
  and \<^verbatim>\<open>data['Investment Value'] = initial_investment * data['Cumulative Return']\<close>.
  The initial investment comes from a number field with an integer default and no bounds.
\<close>

definition daily_return :: "frame \<Rightarrow> error + series" where
  "daily_return data = set_column (map fst data) (dropna (pct_change (adj_close data)))"

definition cumulative_return :: "frame \<Rightarrow> series" where
  "cumulative_return data = cumprod (add (Fin 1) (fillna (Fin 0) (pct_change (adj_close data))))"

definition investment_value :: "int \<Rightarrow> frame \<Rightarrow> series" where
  "investment_value initial_investment data =
     scale (Fin (of_int initial_investment)) (cumulative_return data)"

definition iloc_first :: "series \<Rightarrow> error + fl" where
  "iloc_first s = (case s of [] \<Rightarrow> Inl IndexError | (d, v) # _ \<Rightarrow> Inr v)"

definition iloc_last :: "series \<Rightarrow> error + fl" where
  "iloc_last s = (case s of [] \<Rightarrow> Inl IndexError | _ # _ \<Rightarrow> Inr (snd (last s)))"

subsection \<open>Annualized return\<close>

text \<open>
  Lines 74 to 76: \<^verbatim>\<open>total_return = data['Cumulative Return'].iloc[-1] - 1\<close>,
  \<^verbatim>\<open>years = (end_date - start_date).days / 365.25\<close> and
  \<^verbatim>\<open>cagr = (1 + total_return)**(1/years) - 1\<close>.
\<close>

definition total_return :: "frame \<Rightarrow> error + fl" where
  "total_return data =
     bind_res (iloc_last (cumulative_return data)) (\<lambda>c. Inr (fsub c (Fin 1)))"

definition ns_per_day :: int where
  "ns_per_day = 86400000000000"

text \<open>\<^verbatim>\<open>(end_date - start_date).days\<close>: the whole days of the difference, rounded down.\<close>

definition timedelta_days :: "timestamp \<Rightarrow> timestamp \<Rightarrow> int" where
  "timedelta_days start_date end_date = (end_date - start_date) div ns_per_day"

definition years :: "timestamp \<Rightarrow> timestamp \<Rightarrow> real" where
  "years start_date end_date = of_int (timedelta_days start_date end_date) / 365.25"

text \<open>
  \<^verbatim>\<open>cagr = (1 + total_return)**(1/years) - 1\<close>. \<^verbatim>\<open>years\<close> is a Python float, so
  \<^verbatim>\<open>1/years\<close> raises when it is zero; the power itself is numpy's and never raises.
\<close>

definition cagr :: "fl \<Rightarrow> real \<Rightarrow> error + fl" where
  "cagr total_ret yrs =
     (if yrs = 0 then Inl ZeroDivisionError
      else Inr (fsub (fpow (fadd (Fin 1) total_ret) (1 / yrs)) (Fin 1)))"

subsection \<open>Statistics of a series\<close>

definition fsum :: "fl list \<Rightarrow> fl" where
  "fsum xs = foldr fadd xs (Fin 0)"

definition notna_vals :: "series \<Rightarrow> fl list" where
  "notna_vals s = filter (\<lambda>v. \<not> isna v) (vals s)"

text \<open>\<^verbatim>\<open>Series.sum\<close> and \<^verbatim>\<open>Series.mean\<close> skip NaN; the mean of no value is NaN.\<close>

definition sum_series :: "series \<Rightarrow> fl" where
  "sum_series s = fsum (notna_vals s)"

definition mean :: "series \<Rightarrow> fl" where
  "mean s =
     (let xs = notna_vals s
      in if xs = [] then NaN else fdiv (fsum xs) (Fin (real (length xs))))"

text \<open>
  \<^verbatim>\<open>Series.var\<close> and \<^verbatim>\<open>Series.std\<close>, with pandas' default \<^verbatim>\<open>ddof=1\<close>: NaN is
  skipped, and fewer than two values left give NaN.
\<close>

definition sq_dev :: "fl \<Rightarrow> fl \<Rightarrow> fl" where
  "sq_dev avg x = fmul (fsub avg x) (fsub avg x)"

definition var :: "series \<Rightarrow> fl" where
  "var s =
     (let xs = notna_vals s; n = length xs
      in if n \<le> 1 then NaN
         else fdiv (fsum (map (sq_dev (fdiv (fsum xs) (Fin (real n)))) xs))
                (Fin (real (n - 1))))"

definition std :: "series \<Rightarrow> fl" where
  "std s = fsqrt (var s)"

text \<open>
  \<^verbatim>\<open>a.cov(b)\<close>: the two series are joined on the labels they share, the pairs with a
  NaN are dropped, and numpy's \<^verbatim>\<open>cov\<close> with \<^verbatim>\<open>ddof=1\<close> does the rest (its factor
  \<^verbatim>\<open>1/(N - 1)\<close> is infinite for a single pair).
\<close>

definition align_inner :: "series \<Rightarrow> series \<Rightarrow> (fl \<times> fl) list" where
  "align_inner a b =
     concat (map (\<lambda>(d, x). case map_of b d of None \<Rightarrow> [] | Some y \<Rightarrow> [(x, y)]) a)"

definition np_cov :: "(fl \<times> fl) list \<Rightarrow> fl" where
  "np_cov ps =
     (let n = Fin (real (length ps));
          avg_a = fdiv (fsum (map fst ps)) n;
          avg_b = fdiv (fsum (map snd ps)) n
      in fmul (fsum (map (\<lambda>(x, y). fmul (fsub x avg_a) (fsub y avg_b)) ps))
              (fdiv (Fin 1) (Fin (real (length ps - 1)))))"

definition cov :: "series \<Rightarrow> series \<Rightarrow> fl" where
  "cov a b =
     (let ps = align_inner a b
      in if ps = [] then NaN
         else let valid = filter (\<lambda>(x, y). \<not> isna x \<and> \<not> isna y) ps
              in if length valid < 1 then NaN else np_cov valid)"

subsection \<open>Volatility and Sharpe ratio\<close>

definition risk_free_rate :: real where
  "risk_free_rate = 0.02"

text \<open>
  Lines 79 to 85, as functions of the \<^verbatim>\<open>Daily Return\<close> column:
  \<^verbatim>\<open>daily_volatility = data['Daily Return'].std()\<close>,
  \<^verbatim>\<open>daily_excess_return = data['Daily Return'] - (risk_free_rate / 252)\<close>,
  \<^verbatim>\<open>daily_sharpe_ratio = daily_excess_return.mean() / daily_volatility\<close>, and both
  annualized by \<^verbatim>\<open>252 ** 0.5\<close>.
\<close>

definition daily_volatility :: "series \<Rightarrow> fl" where
  "daily_volatility dr = std dr"

definition annualized_volatility :: "series \<Rightarrow> fl" where
  "annualized_volatility dr = fmul (daily_volatility dr) (Fin (sqrt 252))"

definition daily_excess_return :: "series \<Rightarrow> series" where
  "daily_excess_return dr = sub (Fin (risk_free_rate / 252)) dr"

definition daily_sharpe_ratio :: "series \<Rightarrow> fl" where
  "daily_sharpe_ratio dr = fdiv (mean (daily_excess_return dr)) (daily_volatility dr)"

definition annualized_sharpe_ratio :: "series \<Rightarrow> fl" where
  "annualized_sharpe_ratio dr = fmul (daily_sharpe_ratio dr) (Fin (sqrt 252))"

subsection \<open>Beta against the benchmark\<close>

text \<open>
  Lines 88 to 95. The covariance is \<^verbatim>\<open>data['Daily Return'].cov(market_return)\<close>, the
  variance is \<^verbatim>\<open>market_return.var()\<close>, and beta is their quotient unless
  \<^verbatim>\<open>market_variance != 0\<close> fails or the benchmark frame is empty.
\<close>

definition market_return :: "frame \<Rightarrow> series" where
  "market_return market_data = dropna (pct_change (adj_close market_data))"

definition covariance :: "series \<Rightarrow> frame \<Rightarrow> fl" where
  "covariance dr market_data = cov dr (market_return market_data)"

definition market_variance :: "frame \<Rightarrow> fl" where
  "market_variance market_data = var (market_return market_data)"

definition beta :: "series \<Rightarrow> frame \<Rightarrow> fl option" where
  "beta dr market_data =
     (if market_data \<noteq> [] then
        (if market_variance market_data \<noteq> Fin 0
         then Some (fdiv (covariance dr market_data) (market_variance market_data))
         else None)
      else None)"

subsection \<open>Dividend yield\<close>

text \<open>
  Lines 98 to 105. The test \<^verbatim>\<open>if not dividends.empty\<close> is on the ticker's whole
  dividend history, as the provider returns it; the window
  \<^verbatim>\<open>[start_date, end_date]\<close> is cut out afterwards, and
  \<^verbatim>\<open>dividends.sum() / data['Adj Close'].iloc[0]\<close> is the yield.
\<close>

definition in_window :: "timestamp \<Rightarrow> timestamp \<Rightarrow> series \<Rightarrow> series" where
  "in_window start_date end_date s = filter (\<lambda>(d, v). start_date \<le> d \<and> d \<le> end_date) s"

definition dividend_yield ::
  "series \<Rightarrow> timestamp \<Rightarrow> timestamp \<Rightarrow> frame \<Rightarrow> error + fl option" where
  "dividend_yield dividends start_date end_date data =
     (if dividends \<noteq> [] then
        bind_res (iloc_first (adj_close data))
          (\<lambda>p. Inr (Some (fdiv (sum_series (in_window start_date end_date dividends)) p)))
      else Inr None)"

subsection \<open>Year-end table\<close>

text \<open>
  \<^verbatim>\<open>index.year\<close>: the calendar year (proleptic Gregorian) of the day a timestamp
  falls on, counted from the epoch 1970-01-01.
\<close>

definition year_of_days :: "int \<Rightarrow> int" where
  "year_of_days days =
     (let z = days + 719468;
          era = z div 146097;
          doe = z mod 146097;
          yoe = (doe - doe div 1460 + doe div 36524 - doe div 146096) div 365;
          doy = doe - (365 * yoe + yoe div 4 - yoe div 100);
          mp = (5 * doy + 2) div 153
      in yoe + era * 400 + (if mp < 10 then 0 else 1))"

definition year :: "timestamp \<Rightarrow> int" where
  "year t = year_of_days (t div ns_per_day)"

text \<open>
  \<^verbatim>\<open>groupby('Year').last()\<close>: the groups come out sorted by key, and \<^verbatim>\<open>last\<close>
  takes, in each column, the last value of the group that is not NaN (NaN when the
  group has none).
\<close>

definition last_notna :: "fl list \<Rightarrow> fl" where
  "last_notna vs =
     (case filter (\<lambda>v. \<not> isna v) vs of [] \<Rightarrow> NaN | w # ws \<Rightarrow> last (w # ws))"

definition group_vals :: "int list \<Rightarrow> fl list \<Rightarrow> int \<Rightarrow> fl list" where
  "group_vals keys vs k = map snd (filter (\<lambda>(k', v). k' = k) (zip keys vs))"

definition groupby_last :: "int list \<Rightarrow> fl list \<Rightarrow> (int \<times> fl) list" where
  "groupby_last keys vs = map (\<lambda>k. (k, last_notna (group_vals keys vs k))) (sort (remdups keys))"

definition annual_table :: "int \<Rightarrow> frame \<Rightarrow> (int \<times> fl) list" where
  "annual_table initial_investment data =
     groupby_last (map (\<lambda>(d, p). year d) data) (vals (investment_value initial_investment data))"

section \<open>The analysis run\<close>

text \<open>
  The market-data provider is an input of the run: \<^verbatim>\<open>yf.download\<close> and
  \<^verbatim>\<open>yf.Ticker(...).dividends\<close>. A run is what follows the click on the button
  (lines 54 to 136): the two checks of the inputs, the download, the test
  \<^verbatim>\<open>data.empty\<close>, and then every computation before anything is displayed. The
  result holds what is displayed: the table, the five metrics and the charted series.
\<close>

record provider =
  download :: "string \<Rightarrow> timestamp \<Rightarrow> timestamp \<Rightarrow> frame"
  dividends :: "string \<Rightarrow> series"

record analysis =
  shown_table :: "(int \<times> fl) list"
  shown_cagr :: fl
  shown_volatility :: fl
  shown_sharpe :: fl
  shown_beta :: "fl option"
  shown_dividend_yield :: "fl option"
  shown_chart :: series

definition analyze ::
  "provider \<Rightarrow> string \<Rightarrow> timestamp \<Rightarrow> timestamp \<Rightarrow> int \<Rightarrow> error + analysis" where
  "analyze yf etf_symbol start_date end_date initial_investment =
     (if start_date \<ge> end_date then Inl DateOrderError
      else if etf_symbol = [] then Inl MissingSymbolError
      else
        let data = download yf etf_symbol start_date end_date
        in if data = [] then Inl (NoDataError etf_symbol)
           else
             bind_res (daily_return data) (\<lambda>dr.
             bind_res (total_return data) (\<lambda>tr.
             bind_res (cagr tr (years start_date end_date)) (\<lambda>g.
             bind_res (dividend_yield (dividends yf etf_symbol) start_date end_date data) (\<lambda>dy.
               Inr \<lparr> shown_table = annual_table initial_investment data,
                     shown_cagr = g,
                     shown_volatility = annualized_volatility dr,
                     shown_sharpe = annualized_sharpe_ratio dr,
                     shown_beta = beta dr (download yf ''^GSPC'' start_date end_date),
                     shown_dividend_yield = dy,
                     shown_chart = investment_value initial_investment data \<rparr>)))))"

section \<open>Quantities in the specification's words\<close>

text \<open>
  The daily returns of a list of prices, \<open>price[i] / price[i-1] - 1\<close>, and the sample
  standard deviation (divisor \<open>n - 1\<close>) of a list of numbers.
\<close>

definition returns_of :: "real list \<Rightarrow> real list" where
  "returns_of ps = map2 (\<lambda>prev cur. cur / prev - 1) ps (tl ps)"

definition sample_variance :: "real list \<Rightarrow> real" where
  "sample_variance xs =
     (\<Sum>x\<leftarrow>xs. (x - sum_list xs / real (length xs))\<^sup>2) / (real (length xs) - 1)"

definition sample_stdev :: "real list \<Rightarrow> real" where
  "sample_stdev xs = sqrt (sample_variance xs)"

text \<open>The rows of a series whose date also occurs in another series.\<close>

definition matched :: "series \<Rightarrow> series \<Rightarrow> series" where
  "matched a b = filter (\<lambda>(d, v). d \<in> set (index b)) a"

text \<open>
  The last trading date of a calendar year in a frame, and the value a series has on a
  date.
\<close>

definition last_trading_date :: "frame \<Rightarrow> int \<Rightarrow> timestamp" where
  "last_trading_date data y = Max (set (filter (\<lambda>d. year d = y) (map fst data)))"

definition value_on :: "series \<Rightarrow> timestamp \<Rightarrow> fl option" where
  "value_on s d = map_of s d"

section \<open>Inputs used as examples\<close>

text \<open>
  The rows of a frame are labelled with the midnight that starts the day, as a naive
  timestamp; the window and the dividend dates are midnights in New York.

  \<open>scenario_prices\<close> is the series of the specification's end-to-end scenario,
  2023-01-03 to 2023-01-05 at 100, 102 and 101, and \<open>scenario_returns\<close> is its
  \<^verbatim>\<open>Daily Return\<close> column. The other frames: a single row; three days at a constant
  price; three days at 0, 5 and 0; and the trading days 2023-12-28, 2023-12-29 and
  2024-01-02.
\<close>

definition scenario_prices :: frame where
  "scenario_prices =
     [(1672704000000000000, 100), (1672790400000000000, 102), (1672876800000000000, 101)]"

definition scenario_returns :: series where
  "scenario_returns =
     [(1672704000000000000, NaN), (1672790400000000000, Fin (1 / 50)),
      (1672876800000000000, Fin (- (1 / 102)))]"

definition single_price :: frame where
  "single_price = [(1672704000000000000, 100)]"

definition flat_prices :: frame where
  "flat_prices =
     [(1672704000000000000, 100), (1672790400000000000, 100), (1672876800000000000, 100)]"

definition zero_prices :: frame where
  "zero_prices =
     [(1672704000000000000, 0), (1672790400000000000, 5), (1672876800000000000, 0)]"

definition two_year_prices :: frame where
  "two_year_prices =
     [(1703721600000000000, 100), (1703808000000000000, 110), (1704153600000000000, 121)]"

text \<open>
  Two benchmark frames that agree on 2023-01-03 to 2023-01-05 and differ only on
  2023-01-06, a day on which \<open>scenario_prices\<close> has no row.
\<close>

definition benchmark_a :: frame where
  "benchmark_a =
     [(1672704000000000000, 100), (1672790400000000000, 110), (1672876800000000000, 99),
      (1672963200000000000, 99)]"

definition benchmark_b :: frame where
  "benchmark_b =
     [(1672704000000000000, 100), (1672790400000000000, 110), (1672876800000000000, 99),
      (1672963200000000000, 198)]"

text \<open>The requested window 2023-01-03 to 2024-01-03.\<close>

definition start_2023 :: timestamp where
  "start_2023 = 1672722000000000000"

definition end_2024 :: timestamp where
  "end_2024 = 1704258000000000000"

text \<open>
  A dividend history with one payment of 1.5 on 2022-12-15, before the window, and one
  that has two more payments inside it, on 2023-03-15 and 2023-06-15.
\<close>

definition earlier_dividends :: series where
  "earlier_dividends = [(1671080400000000000, Fin 1.5)]"

definition window_dividends :: series where
  "window_dividends =
     [(1671080400000000000, Fin 1.5), (1678852800000000000, Fin 1.5),
      (1686801600000000000, Fin 1.6)]"

text \<open>
  A provider that knows no ticker \<^verbatim>\<open>ZZZZ\<close> and answers every other request with the
  same rows and the same dividend history.
\<close>

definition fixed_provider :: "frame \<Rightarrow> series \<Rightarrow> provider" where
  "fixed_provider rows divs =
     \<lparr> download = (\<lambda>sym s e. if sym = ''ZZZZ'' then [] else rows),
       dividends = (\<lambda>sym. divs) \<rparr>"

section \<open>The same numbers with binary64 rounding\<close>

text \<open>
  An arithmetic operation on binary64 floats is the exact operation followed by rounding
  to the nearest representable value, ties to the even significand (IEEE 754, the
  default mode, which Python and numpy use). A finite binary64 value is a real of the
  form \<open>m * 2^e\<close> with \<open>\<bar>m\<bar> < 2^53\<close> and \<open>- 1074 \<le> e\<close>; a rounded result of
  magnitude \<open>2^1024\<close> or more is an infinity.

  \<open>round_to_double\<close> rounds \<open>m * 2^ex\<close> for a positive integer \<open>m\<close> whose lowest bit
  stands for everything below it (a sticky bit); \<open>round64\<close> brings a real into that form
  with 57 bits or more. The steps are separate functions, each taking what the one
  before has computed.
\<close>

definition pow2 :: "int \<Rightarrow> real" where
  "pow2 k = (if 0 \<le> k then 2 ^ nat k else 1 / 2 ^ nat (- k))"

text \<open>
  The last step: the rounded significand \<open>q\<close> at the exponent \<open>e\<close>, with its sign, or an
  infinity when it is out of range.
\<close>

definition finish_double :: "bool \<Rightarrow> real \<Rightarrow> fl" where
  "finish_double negative v =
     (if 2 ^ 1024 \<le> v then (if negative then NInf else PInf)
      else Fin (if negative then - v else v))"

text \<open>
  Rounding to nearest, ties to even: \<open>q\<close> is the part of the integer that is kept,
  \<open>r\<close> the part that is cut off and \<open>half\<close> half a unit of \<open>q\<close>.
\<close>

definition round_half_even :: "bool \<Rightarrow> int \<Rightarrow> int \<Rightarrow> int \<Rightarrow> int \<Rightarrow> fl" where
  "round_half_even negative q r half e =
     finish_double negative
       (of_int (if half < r \<or> (r = half \<and> odd q) then q + 1 else q) * pow2 e)"

text \<open>Cutting \<open>shift\<close> bits off the integer \<open>m\<close>, which stands at the exponent \<open>ex\<close>.\<close>

definition round_at :: "bool \<Rightarrow> int \<Rightarrow> int \<Rightarrow> int \<Rightarrow> fl" where
  "round_at negative m ex shift =
     round_half_even negative (m div 2 ^ nat shift) (m mod 2 ^ nat shift)
       (2 ^ nat (shift - 1)) (ex + shift)"

text \<open>
  53 bits are kept, fewer when the result is subnormal (the exponent of the last bit is
  never below \<open>- 1074\<close>).
\<close>

definition round_to_double :: "bool \<Rightarrow> int \<Rightarrow> int \<Rightarrow> fl" where
  "round_to_double negative m ex = round_at negative m ex (max (bitlen m - 53) (- 1074 - ex))"

text \<open>A lower estimate of the binary exponent of a positive real: \<open>2^magnitude a \<le> a\<close>.\<close>

definition magnitude :: "real \<Rightarrow> int" where
  "magnitude a = (if 1 \<le> a then bitlen \<lfloor>a\<rfloor> - 1 else - bitlen \<lfloor>1 / a\<rfloor>)"

text \<open>
  The integer part of the scaled real \<open>s\<close>, doubled, with the sticky bit set when \<open>s\<close>
  is not an integer; \<open>s\<close> is the magnitude of the number times \<open>2^k\<close>.
\<close>

definition round_scaled :: "bool \<Rightarrow> real \<Rightarrow> int \<Rightarrow> fl" where
  "round_scaled negative s k =
     round_to_double negative
       (2 * \<lfloor>s\<rfloor> + (if \<lfloor>s\<rfloor> = \<lceil>s\<rceil> then 0 else 1)) (- k - 1)"

definition round_magnitude :: "bool \<Rightarrow> real \<Rightarrow> int \<Rightarrow> fl" where
  "round_magnitude negative a k = round_scaled negative (a * pow2 k) k"

definition round64 :: "real \<Rightarrow> fl" where
  "round64 x =
     (if x = 0 then Fin 0 else round_magnitude (x < 0) \<bar>x\<bar> (56 - magnitude \<bar>x\<bar>))"

fun rnd :: "fl \<Rightarrow> fl" where
  "rnd (Fin x) = round64 x"
| "rnd v = v"

definition add64 :: "fl \<Rightarrow> fl \<Rightarrow> fl" where
  "add64 a b = rnd (fadd a b)"

definition sub64 :: "fl \<Rightarrow> fl \<Rightarrow> fl" where
  "sub64 a b = rnd (fsub a b)"

definition mul64 :: "fl \<Rightarrow> fl \<Rightarrow> fl" where
  "mul64 a b = rnd (fmul a b)"

definition div64 :: "fl \<Rightarrow> fl \<Rightarrow> fl" where
  "div64 a b = rnd (fdiv a b)"

text \<open>
  The square root, correctly rounded: the integer square root of the argument scaled by
  a power of 4, found bit by bit, with a sticky bit when it is not exact.
\<close>

fun isqrt_bits :: "nat \<Rightarrow> int \<Rightarrow> int \<Rightarrow> int" where
  "isqrt_bits 0 n r = (if (r + 1) * (r + 1) \<le> n then r + 1 else r)"
| "isqrt_bits (Suc b) n r =
     isqrt_bits b n (if (r + 2 ^ Suc b) * (r + 2 ^ Suc b) \<le> n then r + 2 ^ Suc b else r)"

definition isqrt :: "int \<Rightarrow> int" where
  "isqrt n = isqrt_bits (nat (bitlen n) div 2) n 0"

definition sqrt_sticky :: "int \<Rightarrow> real \<Rightarrow> int \<Rightarrow> fl" where
  "sqrt_sticky s t k =
     round_to_double False
       (2 * s + (if s * s = \<lfloor>t\<rfloor> \<and> \<lfloor>t\<rfloor> = \<lceil>t\<rceil> then 0 else 1)) (- k - 1)"

definition sqrt_scaled :: "real \<Rightarrow> int \<Rightarrow> fl" where
  "sqrt_scaled t k = sqrt_sticky (isqrt \<lfloor>t\<rfloor>) t k"

definition sqrt_magnitude :: "real \<Rightarrow> int \<Rightarrow> fl" where
  "sqrt_magnitude x k = sqrt_scaled (x * pow2 (2 * k)) k"

fun sqrt64 :: "fl \<Rightarrow> fl" where
  "sqrt64 (Fin x) =
     (if x < 0 then NaN
      else if x = 0 then Fin 0
      else sqrt_magnitude x (56 - magnitude x div 2))"
| "sqrt64 PInf = PInf"
| "sqrt64 NInf = NaN"
| "sqrt64 NaN = NaN"

subsection \<open>The columns and statistics, every operation rounded\<close>

text \<open>
  The definitions of the script's columns and statistics once more, operation for
  operation, with binary64 arithmetic. numpy adds fewer than eight numbers from left to
  right, starting from zero, and pandas puts zero where a value is missing; the running
  product goes down the column.
\<close>

definition adj_close_64 :: "frame \<Rightarrow> series" where
  "adj_close_64 data = map (\<lambda>(d, p). (d, round64 p)) data"

fun pct_vals_64 :: "fl list \<Rightarrow> fl list" where
  "pct_vals_64 [] = []"
| "pct_vals_64 (v # vs) = NaN # map2 (\<lambda>prev cur. sub64 (div64 cur prev) (Fin 1)) (v # vs) vs"

definition pct_change_64 :: "series \<Rightarrow> series" where
  "pct_change_64 s = zip (index s) (pct_vals_64 (vals s))"

definition add_64 :: "fl \<Rightarrow> series \<Rightarrow> series" where
  "add_64 c s = map (\<lambda>(d, v). (d, add64 v c)) s"

definition sub_64 :: "fl \<Rightarrow> series \<Rightarrow> series" where
  "sub_64 c s = map (\<lambda>(d, v). (d, sub64 v c)) s"

definition scale_64 :: "fl \<Rightarrow> series \<Rightarrow> series" where
  "scale_64 c s = map (\<lambda>(d, v). (d, mul64 c v)) s"

fun cumprod_from_64 :: "fl \<Rightarrow> fl list \<Rightarrow> fl list" where
  "cumprod_from_64 acc [] = []"
| "cumprod_from_64 acc (v # vs) =
     (if isna v then NaN # cumprod_from_64 acc vs
      else mul64 acc v # cumprod_from_64 (mul64 acc v) vs)"

definition cumprod_64 :: "series \<Rightarrow> series" where
  "cumprod_64 s = zip (index s) (cumprod_from_64 (Fin 1) (vals s))"

definition daily_return_64 :: "frame \<Rightarrow> error + series" where
  "daily_return_64 data =
     set_column (map fst data) (dropna (pct_change_64 (adj_close_64 data)))"

definition cumulative_return_64 :: "frame \<Rightarrow> series" where
  "cumulative_return_64 data =
     cumprod_64 (add_64 (Fin 1) (fillna (Fin 0) (pct_change_64 (adj_close_64 data))))"

definition investment_value_64 :: "int \<Rightarrow> frame \<Rightarrow> series" where
  "investment_value_64 initial_investment data =
     scale_64 (round64 (of_int initial_investment)) (cumulative_return_64 data)"

definition fsum_64 :: "fl list \<Rightarrow> fl" where
  "fsum_64 xs = foldl add64 (Fin 0) xs"

definition mean_64 :: "series \<Rightarrow> fl" where
  "mean_64 s =
     (let xs = notna_vals s
      in if xs = [] then NaN else div64 (fsum_64 xs) (Fin (real (length xs))))"

definition sq_dev_64 :: "fl \<Rightarrow> fl \<Rightarrow> fl" where
  "sq_dev_64 avg x = mul64 (sub64 avg x) (sub64 avg x)"

definition var_64 :: "series \<Rightarrow> fl" where
  "var_64 s =
     (let xs = notna_vals s; n = length xs
      in if n \<le> 1 then NaN
         else div64 (fsum_64 (map (sq_dev_64 (div64 (fsum_64 xs) (Fin (real n)))) xs))
                (Fin (real (n - 1))))"

definition std_64 :: "series \<Rightarrow> fl" where
  "std_64 s = sqrt64 (var_64 s)"

definition daily_volatility_64 :: "series \<Rightarrow> fl" where
  "daily_volatility_64 dr = std_64 dr"

definition daily_excess_return_64 :: "series \<Rightarrow> series" where
  "daily_excess_return_64 dr = sub_64 (div64 (round64 risk_free_rate) (Fin 252)) dr"

definition daily_sharpe_ratio_64 :: "series \<Rightarrow> fl" where
  "daily_sharpe_ratio_64 dr =
     div64 (mean_64 (daily_excess_return_64 dr)) (daily_volatility_64 dr)"

subsection \<open>Inputs for the rounded computations\<close>

text \<open>
  Three days at 100, 101 and 103 with the \<^verbatim>\<open>Daily Return\<close> column binary64 gives
  them; three days at 100, 110 and 121; four days of constant growth by the factor 1.7.
\<close>

definition sharpe_prices :: frame where
  "sharpe_prices =
     [(1672704000000000000, 100), (1672790400000000000, 101), (1672876800000000000, 103)]"

definition sharpe_returns :: series where
  "sharpe_returns =
     [(1672704000000000000, NaN),
      (1672790400000000000, Fin (45035996273705 / 4503599627370496)),
      (1672876800000000000, Fin (11147523830125 / 562949953421312))]"

definition compound_prices :: frame where
  "compound_prices =
     [(1672704000000000000, 100), (1672790400000000000, 110), (1672876800000000000, 121)]"

definition growth_prices :: frame where
  "growth_prices =
     [(1672704000000000000, 1000), (1672790400000000000, 1700),
      (1672876800000000000, 2890), (1672963200000000000, 4913)]"

definition growth_returns :: series where
  "growth_returns =
     [(1672704000000000000, NaN),
      (1672790400000000000, Fin (3152519739159347 / 4503599627370496)),
      (1672876800000000000, Fin (3152519739159347 / 4503599627370496)),
      (1672963200000000000, Fin (3152519739159347 / 4503599627370496))]"

section \<open>The dates of the window\<close>

text \<open>
  Lines 40 to 45. The two date fields give calendar dates, here counted in days since
  1970-01-01. \<^verbatim>\<open>pd.Timestamp(start_date)\<close> is the midnight that starts the date, as a
  naive timestamp, and \<^verbatim>\<open>.tz_localize('America/New_York')\<close> reads it as New York wall
  time: the instant is the wall time minus the zone's offset from UTC at that wall time.
  The zone's offsets are the time-zone database's, an input of the model;
  \<open>new_york_2023\<close> is its rule for 2023, minus four hours from 2023-03-12 02:00 to
  2023-11-05 02:00 and minus five hours otherwise.
\<close>

definition timestamp_of_date :: "int \<Rightarrow> timestamp" where
  "timestamp_of_date day = day * ns_per_day"

definition tz_localize :: "(timestamp \<Rightarrow> int) \<Rightarrow> timestamp \<Rightarrow> timestamp" where
  "tz_localize utc_offset t = t - utc_offset t"

definition new_york_2023 :: "timestamp \<Rightarrow> int" where
  "new_york_2023 t =
     (if 1678586400000000000 \<le> t \<and> t < 1699149600000000000
      then - 14400000000000 else - 18000000000000)"

text \<open>The day span of a window of dates, in the specification's words.\<close>

definition day_span :: "int \<Rightarrow> int \<Rightarrow> int" where
  "day_span start_day end_day = end_day - start_day"

text \<open>A frame with the single row Sunday 2023-03-12 at 100.\<close>

definition sunday_prices :: frame where
  "sunday_prices = [(1678579200000000000, 100)]"

section \<open>Cumulative growth\<close>

lemma vals_zip_index [simp]: "length vs = length s \<Longrightarrow> vals (zip (index s) vs) = vs"
  by (simp add: vals_def index_def)

lemma length_pct_vals [simp]: "length (pct_vals vs) = length vs"
  by (cases vs) simp_all

lemma length_cumprod_from [simp]: "length (cumprod_from acc vs) = length vs"
  by (induction vs arbitrary: acc) simp_all

lemma vals_pct_change [simp]: "vals (pct_change s) = pct_vals (vals s)"
  by (simp add: pct_change_def vals_def index_def)

lemma vals_fillna [simp]: "vals (fillna c s) = map (\<lambda>v. if isna v then c else v) (vals s)"
  by (simp add: fillna_def vals_def case_prod_unfold)

lemma vals_add [simp]: "vals (add c s) = map (\<lambda>v. fadd v c) (vals s)"
  by (simp add: add_def vals_def case_prod_unfold)

lemma vals_scale [simp]: "vals (scale c s) = map (fmul c) (vals s)"
  by (simp add: scale_def vals_def case_prod_unfold)

lemma vals_cumprod [simp]: "vals (cumprod s) = cumprod_from (Fin 1) (vals s)"
  by (simp add: cumprod_def vals_def index_def)

lemma vals_adj_close [simp]: "vals (adj_close data) = map (\<lambda>r. Fin (snd r)) data"
  by (simp add: adj_close_def vals_def case_prod_unfold)

lemma vals_cumulative_return:
  "vals (cumulative_return data) =
     cumprod_from (Fin 1)
       (map (\<lambda>v. fadd (if isna v then Fin 0 else v) (Fin 1))
         (pct_vals (map (\<lambda>r. Fin (snd r)) data)))"
  by (simp add: cumulative_return_def comp_def)

text \<open>
  Claim C3. For every non-empty price series the first cumulative return is exactly 1 and
  the first investment value is exactly the initial investment: the missing first daily
  return is filled with 0 before the running product, not dropped.
\<close>

theorem first_cumulative_return_is_one:
  "data \<noteq> [] \<Longrightarrow>
     vals (cumulative_return data) ! 0 = Fin 1 \<and>
     vals (investment_value initial_investment data) ! 0 = Fin (of_int initial_investment) \<and>
     length (vals (cumulative_return data)) = length data \<and>
     length (vals (investment_value initial_investment data)) = length data"
  by (cases data) (simp_all add: investment_value_def vals_cumulative_return isna_def)

theorem first_cumulative_return_is_one_witness:
  "[(1672704000000000000, 100), (1672790400000000000, 102)] \<noteq> ([] :: frame) \<and>
   vals (cumulative_return [(1672704000000000000, 100), (1672790400000000000, 102)]) ! 0 = Fin 1 \<and>
   vals (investment_value 1000 [(1672704000000000000, 100), (1672790400000000000, 102)]) ! 0
     = Fin 1000"
  using first_cumulative_return_is_one
    [of "[(1672704000000000000, 100), (1672790400000000000, 102)]" 1000]
  by simp

subsection \<open>Telescoping of the running product\<close>

lemma pct_vals_Fin:
  "p \<noteq> 0 \<Longrightarrow> \<forall>q\<in>set qs. q \<noteq> 0 \<Longrightarrow>
     map2 (\<lambda>prev cur. fsub (fdiv cur prev) (Fin 1)) (map Fin (p # qs)) (map Fin qs)
       = map2 (\<lambda>a b. Fin (b / a - 1)) (p # qs) qs"
  by (induction qs arbitrary: p) (simp_all add: fsub_def)

lemma cumprod_from_ratios:
  "p \<noteq> 0 \<Longrightarrow> \<forall>q\<in>set qs. q \<noteq> 0 \<Longrightarrow>
     cumprod_from (Fin c) (map2 (\<lambda>a b. Fin (b / a - 1 + 1)) (p # qs) qs)
       = map (\<lambda>q. Fin (c * q / p)) qs"
  by (induction qs arbitrary: p c) (simp_all add: isna_def)

lemma vals_cumulative_return_ratio:
  assumes "data \<noteq> []" and "\<forall>r\<in>set data. snd r \<noteq> 0"
  shows "vals (cumulative_return data) = map (\<lambda>r. Fin (snd r / snd (hd data))) data"
proof -
  obtain r rs where d: "data = r # rs" using assms(1) by (cases data) auto
  have nz: "snd r \<noteq> 0" "\<forall>q\<in>set (map snd rs). q \<noteq> 0" using assms(2) d by auto
  have "pct_vals (map (\<lambda>r. Fin (snd r)) data)
          = NaN # map2 (\<lambda>a b. Fin (b / a - 1)) (snd r # map snd rs) (map snd rs)"
    using pct_vals_Fin [OF nz] by (simp add: d comp_def)
  then have "vals (cumulative_return data)
          = Fin 1 # cumprod_from (Fin 1)
              (map2 (\<lambda>a b. Fin (b / a - 1 + 1)) (snd r # map snd rs) (map snd rs))"
    by (simp add: vals_cumulative_return isna_def map_zip_map2 comp_def case_prod_unfold del: pct_vals.simps)
  also have "\<dots> = Fin 1 # map (\<lambda>q. Fin (1 * q / snd r)) (map snd rs)"
    using cumprod_from_ratios [OF nz] by simp
  finally show ?thesis using nz(1) by (simp add: d comp_def)
qed

lemma length_vals_cumulative_return [simp]:
  "length (vals (cumulative_return data)) = length data"
  by (simp add: vals_cumulative_return)

lemma iloc_last_vals: "s \<noteq> [] \<Longrightarrow> iloc_last s = Inr (last (vals s))"
  by (cases s) (simp_all add: iloc_last_def vals_def last_map)

lemma cumulative_return_nonempty: "data \<noteq> [] \<Longrightarrow> cumulative_return data \<noteq> []"
  using length_vals_cumulative_return [of data] by (auto simp: vals_def simp del: length_vals_cumulative_return)

text \<open>
  In the arithmetic without rounding, the running product of a frame of positive prices
  telescopes.
\<close>

lemma cumulative_return_ratio_exact:
  assumes "\<forall>r\<in>set data. 0 < snd r" and "i < length data"
  shows "vals (cumulative_return data) ! i = Fin (snd (data ! i) / snd (data ! 0)) \<and>
         vals (investment_value initial_investment data) ! i
           = Fin (of_int initial_investment * (snd (data ! i) / snd (data ! 0))) \<and>
         (0 \<le> initial_investment \<longrightarrow>
            fle (Fin 0) (vals (investment_value initial_investment data) ! i)) \<and>
         total_return data = Inr (Fin (snd (last data) / snd (data ! 0) - 1))"
proof -
  have ne: "data \<noteq> []" using assms(2) by auto
  have nz: "\<forall>r\<in>set data. snd r \<noteq> 0" using assms(1) by fastforce
  have hd0: "hd data = data ! 0" using ne by (simp add: hd_conv_nth)
  have cr: "vals (cumulative_return data) = map (\<lambda>r. Fin (snd r / snd (data ! 0))) data"
    using vals_cumulative_return_ratio [OF ne nz] hd0 by simp
  have c1: "vals (cumulative_return data) ! i = Fin (snd (data ! i) / snd (data ! 0))"
    using assms(2) by (simp add: cr)
  have c2: "vals (investment_value initial_investment data) ! i
           = Fin (of_int initial_investment * (snd (data ! i) / snd (data ! 0)))"
    using assms(2) by (simp add: investment_value_def cr)
  have pos: "0 < snd (data ! i) / snd (data ! 0)"
    using assms ne by (simp add: divide_pos_pos)
  have c3: "0 \<le> initial_investment \<longrightarrow>
            fle (Fin 0) (vals (investment_value initial_investment data) ! i)"
  proof
    assume "0 \<le> initial_investment"
    then have "0 \<le> real_of_int initial_investment * (snd (data ! i) / snd (data ! 0))"
      using pos by (intro mult_nonneg_nonneg) simp_all
    then show "fle (Fin 0) (vals (investment_value initial_investment data) ! i)"
      by (simp only: c2 fle.simps)
  qed
  have "last (vals (cumulative_return data)) = Fin (snd (last data) / snd (data ! 0))"
    using ne by (simp add: cr last_map)
  then have c4: "total_return data = Inr (Fin (snd (last data) / snd (data ! 0) - 1))"
    using iloc_last_vals [OF cumulative_return_nonempty [OF ne]]
    by (simp add: total_return_def bind_res_def fsub_def)
  show ?thesis using c1 c2 c3 c4 by blast
qed

subsection \<open>The Daily Return column\<close>


lemma index_pct_change [simp]: "index (pct_change s) = index s"
  by (simp add: pct_change_def index_def vals_def)

lemma index_adj_close [simp]: "index (adj_close data) = map fst data"
  by (simp add: adj_close_def index_def case_prod_unfold)

lemma reindex_dropna:
  assumes "distinct (index s)"
  shows "reindex (index s) (dropna s) = s"
proof -
  have d: "distinct (map fst (dropna s))"
    using assms by (simp add: dropna_def index_def distinct_map_filter)
  have "(case map_of (dropna s) (fst r) of None \<Rightarrow> NaN | Some v \<Rightarrow> v) = snd r"
    if r: "r \<in> set s" for r
  proof (cases "isna (snd r)")
    case True
    have "fst r \<notin> fst ` set (dropna s)"
    proof
      assume "fst r \<in> fst ` set (dropna s)"
      then obtain q where q: "q \<in> set s" "\<not> isna (snd q)" "fst q = fst r"
        by (auto simp: dropna_def)
      with r assms have "q = r"
        by (metis distinct_map index_def inj_onD)
      with q True show False by simp
    qed
    then have "map_of (dropna s) (fst r) = None"
      by (simp add: map_of_eq_None_iff)
    with True show ?thesis by (simp add: isna_def)
  next
    case False
    with r have "(fst r, snd r) \<in> set (dropna s)" by (simp add: dropna_def case_prod_unfold)
    then have "map_of (dropna s) (fst r) = Some (snd r)"
      using d by simp
    then show ?thesis by simp
  qed
  then have "map (\<lambda>d. (d, case map_of (dropna s) d of None \<Rightarrow> NaN | Some v \<Rightarrow> v)) (map fst s) = s"
    by (simp add: map_idI)
  then show ?thesis by (simp add: reindex_def index_def)
qed

lemma daily_return_distinct:
  assumes "distinct (map fst data)"
  shows "daily_return data = Inr (pct_change (adj_close data))"
proof -
  let ?s = "pct_change (adj_close data)"
  have i: "index ?s = map fst data" by simp
  have "distinct (index (dropna ?s))"
    using assms i by (simp add: dropna_def index_def distinct_map_filter del: index_pct_change)
  moreover have "dropna ?s = ?s" if eq: "index (dropna ?s) = map fst data"
  proof -
    have len: "length (dropna ?s) = length ?s"
      using arg_cong [OF eq, of length] arg_cong [OF i, of length] by (simp add: index_def)
    have "\<not> isna (snd x)" if "x \<in> set ?s" for x
    proof
      assume "isna (snd x)"
      then have "length (filter (\<lambda>(d, v). \<not> isna v) ?s) < length ?s"
        using that by (intro length_filter_less) auto
      with len show False by (simp add: dropna_def)
    qed
    then show ?thesis by (auto simp add: dropna_def filter_id_conv)
  qed
  ultimately show ?thesis
    using reindex_dropna [of ?s] assms i
    by (auto simp add: daily_return_def set_column_def simp del: index_pct_change)
qed

section \<open>Errors of a run\<close>

text \<open>
  Claim C8. When the rows fetched for the requested ticker are empty, the run ends with
  the no-data error naming that ticker, and nothing else: no table, metric or chart.
\<close>

theorem empty_fetch_is_no_data_error:
  assumes "start_date < end_date" and "etf_symbol \<noteq> []"
    and "download yf etf_symbol start_date end_date = []"
  shows "analyze yf etf_symbol start_date end_date initial_investment
           = Inl (NoDataError etf_symbol)"
  using assms by (simp add: analyze_def)

theorem empty_fetch_is_no_data_error_witness:
  "start_2023 < end_2024 \<and> ''ZZZZ'' \<noteq> [] \<and>
   download (fixed_provider scenario_prices []) ''ZZZZ'' start_2023 end_2024 = [] \<and>
   analyze (fixed_provider scenario_prices []) ''ZZZZ'' start_2023 end_2024 1000
     = Inl (NoDataError ''ZZZZ'')"
  using empty_fetch_is_no_data_error
    [of start_2023 end_2024 "''ZZZZ''" "fixed_provider scenario_prices []" 1000]
  by (simp add: start_2023_def end_2024_def fixed_provider_def)

lemma dividend_yield_total:
  "data \<noteq> [] \<Longrightarrow>
     dividend_yield divs s e data =
       Inr (if divs \<noteq> [] then Some (fdiv (sum_series (in_window s e divs)) (Fin (snd (hd data))))
            else None)"
  by (cases data) (auto simp add: dividend_yield_def bind_res_def iloc_first_def adj_close_def)

lemma total_return_total:
  "data \<noteq> [] \<Longrightarrow>
     total_return data = Inr (fsub (last (vals (cumulative_return data))) (Fin 1))"
  using iloc_last_vals [OF cumulative_return_nonempty]
  by (simp add: total_return_def bind_res_def)

lemma timedelta_days_pos: "ns_per_day \<le> e - s \<Longrightarrow> 0 < timedelta_days s e"
  by (simp add: timedelta_days_def ns_per_day_def pos_imp_zdiv_pos_iff)

lemma years_nonzero: "ns_per_day \<le> e - s \<Longrightarrow> years s e \<noteq> 0"
  using timedelta_days_pos [where s = s and e = e] by (simp add: years_def)

lemma analyze_succeeds:
  assumes "start_date < end_date" and "etf_symbol \<noteq> []"
    and "download yf etf_symbol start_date end_date = data" and "data \<noteq> []"
    and "distinct (map fst data)" and "ns_per_day \<le> end_date - start_date"
  shows "analyze yf etf_symbol start_date end_date initial_investment =
     Inr \<lparr> shown_table = annual_table initial_investment data,
           shown_cagr = fsub (fpow (fadd (Fin 1)
                           (fsub (last (vals (cumulative_return data))) (Fin 1)))
                         (1 / years start_date end_date)) (Fin 1),
           shown_volatility = annualized_volatility (pct_change (adj_close data)),
           shown_sharpe = annualized_sharpe_ratio (pct_change (adj_close data)),
           shown_beta = beta (pct_change (adj_close data))
                          (download yf ''^GSPC'' start_date end_date),
           shown_dividend_yield =
             (if dividends yf etf_symbol \<noteq> []
              then Some (fdiv (sum_series (in_window start_date end_date (dividends yf etf_symbol)))
                           (Fin (snd (hd data))))
              else None),
           shown_chart = investment_value initial_investment data \<rparr>"
  using assms years_nonzero [OF assms(6)]
  by (simp add: analyze_def bind_res_def daily_return_distinct total_return_total
      dividend_yield_total cagr_def)

section \<open>Annualized return\<close>

text \<open>
  A run that gets past validation on a non-empty frame, over a window of at least one
  whole day of elapsed time, shows \<open>(1 + totalReturn) ** (1 / years) - 1\<close> as CAGR.
\<close>

lemma cagr_of_run:
  assumes "start_date < end_date" and "etf_symbol \<noteq> []"
    and "download yf etf_symbol start_date end_date = data" and "data \<noteq> []"
    and "distinct (map fst data)" and "ns_per_day \<le> end_date - start_date"
  shows "\<exists>res.
           analyze yf etf_symbol start_date end_date initial_investment = Inr res \<and>
           shown_cagr res =
             fsub (fpow (fadd (Fin 1) (fsub (last (vals (cumulative_return data))) (Fin 1)))
                     (1 / (of_int ((end_date - start_date) div ns_per_day) / 365.25)))
               (Fin 1) \<and>
           total_return data = Inr (fsub (last (vals (cumulative_return data))) (Fin 1)) \<and>
           years start_date end_date
             = of_int ((end_date - start_date) div ns_per_day) / 365.25 \<and>
           cagr (Fin 0) 1 = Inr (Fin 0)"
proof -
  have y: "years start_date end_date = of_int ((end_date - start_date) div ns_per_day) / 365.25"
    by (simp add: years_def timedelta_days_def)
  have z: "cagr (Fin 0) 1 = Inr (Fin 0)" by (simp add: cagr_def fsub_def)
  show ?thesis
    using z total_return_total [OF assms(4)]
    unfolding analyze_succeeds [OF assms] y [symmetric]
    by simp
qed

lemma cagr_of_run_scenario:
  "start_2023 < end_2024 \<and> ''SPY'' \<noteq> [] \<and>
   download (fixed_provider scenario_prices []) ''SPY'' start_2023 end_2024 = scenario_prices \<and>
   scenario_prices \<noteq> [] \<and> distinct (map fst scenario_prices) \<and>
   ns_per_day \<le> end_2024 - start_2023 \<and>
   (\<exists>res. analyze (fixed_provider scenario_prices []) ''SPY'' start_2023 end_2024 1000 = Inr res \<and>
      shown_cagr res = Fin ((101 / 100) powr (1461 / 1460) - 1))"
proof -
  have h: "start_2023 < end_2024" "''SPY'' \<noteq> []"
    "download (fixed_provider scenario_prices []) ''SPY'' start_2023 end_2024 = scenario_prices"
    "scenario_prices \<noteq> []" "distinct (map fst scenario_prices)"
    "ns_per_day \<le> end_2024 - start_2023"
    by (simp_all add: start_2023_def end_2024_def fixed_provider_def scenario_prices_def
        ns_per_day_def)
  have l: "last (vals (cumulative_return scenario_prices)) = Fin (101 / 100)"
    by (simp add: scenario_prices_def vals_cumulative_return isna_def fsub_def)
  have d: "(end_2024 - start_2023) div ns_per_day = 365"
    by (simp add: start_2023_def end_2024_def ns_per_day_def)
  show ?thesis
    using h cagr_of_run [OF h, of 1000] by (auto simp add: l d fsub_def)
qed

section \<open>Degenerate arithmetic\<close>

lemma fdiv_by_zero_not_finite: "\<not> is_finite (fdiv m (Fin 0))"
  by (cases m) (simp_all add: inf_of_sign_def)

lemma fmul_not_finite: "\<not> is_finite a \<Longrightarrow> \<not> is_finite (fmul a b)"
  by (cases a; cases b) (simp_all add: inf_of_sign_def)

lemma zero_volatility_sharpe:
  "daily_volatility dr = Fin 0 \<Longrightarrow> \<not> is_finite (annualized_sharpe_ratio dr)"
  by (simp add: annualized_sharpe_ratio_def daily_sharpe_ratio_def
      fmul_not_finite fdiv_by_zero_not_finite)

text \<open>
  Claim C2, amended. The script has no check on degenerate arithmetic. A run that gets
  past validation on a non-empty frame, over a window of at least one whole day, always
  ends with a result: when the daily volatility is exactly 0 the Sharpe ratio it shows is
  an infinity or NaN, and the CAGR it shows is the value of the formula whether finite or
  not.
\<close>

theorem degenerate_math_is_shown:
  assumes "start_date < end_date" and "etf_symbol \<noteq> []"
    and "download yf etf_symbol start_date end_date = data" and "data \<noteq> []"
    and "distinct (map fst data)" and "ns_per_day \<le> end_date - start_date"
  shows "\<exists>res dr tr.
           analyze yf etf_symbol start_date end_date initial_investment = Inr res \<and>
           daily_return data = Inr dr \<and>
           shown_sharpe res = annualized_sharpe_ratio dr \<and>
           (daily_volatility dr = Fin 0 \<longrightarrow> \<not> is_finite (shown_sharpe res)) \<and>
           total_return data = Inr tr \<and>
           cagr tr (years start_date end_date) = Inr (shown_cagr res)"
  using years_nonzero [OF assms(6)] total_return_total [OF assms(4)]
    daily_return_distinct [OF assms(5)] zero_volatility_sharpe
  unfolding analyze_succeeds [OF assms]
  by (simp add: cagr_def)

lemma daily_return_flat_prices:
  "daily_return flat_prices =
     Inr [(1672704000000000000, NaN), (1672790400000000000, Fin 0), (1672876800000000000, Fin 0)]"
  by (simp add: daily_return_distinct flat_prices_def pct_change_def adj_close_def index_def
      vals_def fsub_def)

lemma flat_prices_volatility:
  "daily_volatility
     [(1672704000000000000, NaN), (1672790400000000000, Fin 0), (1672876800000000000, Fin 0)]
   = Fin 0"
  by (simp add: daily_volatility_def std_def var_def notna_vals_def vals_def isna_def
      fsum_def sq_dev_def fsub_def)

lemma flat_prices_sharpe:
  "annualized_sharpe_ratio
     [(1672704000000000000, NaN), (1672790400000000000, Fin 0), (1672876800000000000, Fin 0)]
   = NInf"
  by (simp add: annualized_sharpe_ratio_def daily_sharpe_ratio_def flat_prices_volatility
      daily_excess_return_def sub_def mean_def notna_vals_def vals_def isna_def fsum_def
      fsub_def risk_free_rate_def inf_of_sign_def)

theorem degenerate_math_is_shown_witness:
  "start_2023 < end_2024 \<and> ''SPY'' \<noteq> [] \<and>
   download (fixed_provider flat_prices []) ''SPY'' start_2023 end_2024 = flat_prices \<and>
   flat_prices \<noteq> [] \<and> distinct (map fst flat_prices) \<and>
   ns_per_day \<le> end_2024 - start_2023 \<and>
   (\<exists>res dr. analyze (fixed_provider flat_prices []) ''SPY'' start_2023 end_2024 1000 = Inr res \<and>
      daily_return flat_prices = Inr dr \<and> daily_volatility dr = Fin 0 \<and>
      \<not> is_finite (shown_sharpe res))"
proof -
  have h: "start_2023 < end_2024" "''SPY'' \<noteq> []"
    "download (fixed_provider flat_prices []) ''SPY'' start_2023 end_2024 = flat_prices"
    "flat_prices \<noteq> []" "distinct (map fst flat_prices)"
    "ns_per_day \<le> end_2024 - start_2023"
    by (simp_all add: start_2023_def end_2024_def fixed_provider_def flat_prices_def
        ns_per_day_def)
  show ?thesis
    using h degenerate_math_is_shown [OF h, of 1000]
    by (auto simp add: daily_return_flat_prices flat_prices_volatility)
qed

text \<open>
  Three days at a constant price: the daily volatility is exactly 0, and the run ends
  with a result whose Sharpe ratio is minus infinity, not with an error.
\<close>

theorem zero_volatility_counterexample:
  "daily_return flat_prices = 
     Inr [(1672704000000000000, NaN), (1672790400000000000, Fin 0), (1672876800000000000, Fin 0)] \<and>
   daily_volatility
     [(1672704000000000000, NaN), (1672790400000000000, Fin 0), (1672876800000000000, Fin 0)]
     = Fin 0 \<and>
   map_sum id shown_sharpe
     (analyze (fixed_provider flat_prices []) ''SPY'' start_2023 end_2024 1000) = Inr NInf"
proof -
  have h: "start_2023 < end_2024" "''SPY'' \<noteq> []"
    "download (fixed_provider flat_prices []) ''SPY'' start_2023 end_2024 = flat_prices"
    "flat_prices \<noteq> []" "distinct (map fst flat_prices)"
    "ns_per_day \<le> end_2024 - start_2023"
    by (simp_all add: start_2023_def end_2024_def fixed_provider_def flat_prices_def
        ns_per_day_def)
  have "pct_change (adj_close flat_prices) =
     [(1672704000000000000, NaN), (1672790400000000000, Fin 0), (1672876800000000000, Fin 0)]"
    using daily_return_flat_prices by (simp add: daily_return_distinct h(5))
  then show ?thesis
    unfolding analyze_succeeds [OF h]
    by (simp add: daily_return_flat_prices flat_prices_volatility flat_prices_sharpe)
qed

section \<open>Dividend yield\<close>

lemma fsum_Fin: "fsum (map Fin xs) = Fin (sum_list xs)"
  by (induction xs) (simp_all add: fsum_def)

lemma sum_series_Nil [simp]: "sum_series [] = Fin 0"
  by (simp add: sum_series_def notna_vals_def vals_def fsum_def)

text \<open>
  Claim C1, amended. On a non-empty frame the dividend yield is absent exactly when the
  ticker's whole dividend history is empty. Otherwise it is the sum of the amounts inside
  the inclusive window divided by the first adjusted close; when the history has
  payments but none inside the window, that sum is 0 and the yield is the number 0 (for a
  first price other than 0), not absent.
\<close>

theorem dividend_yield_absent_iff:
  assumes "data \<noteq> []"
  shows "(dividend_yield divs start_date end_date data = Inr None \<longleftrightarrow> divs = []) \<and>
         (divs \<noteq> [] \<longrightarrow>
            dividend_yield divs start_date end_date data
              = Inr (Some (fdiv (sum_series (in_window start_date end_date divs))
                             (Fin (snd (data ! 0)))))) \<and>
         (divs \<noteq> [] \<and> in_window start_date end_date divs = [] \<and> snd (data ! 0) \<noteq> 0 \<longrightarrow>
            dividend_yield divs start_date end_date data = Inr (Some (Fin 0)))"
proof -
  have hd0: "hd data = data ! 0" using assms by (simp add: hd_conv_nth)
  show ?thesis
    unfolding dividend_yield_total [OF assms] hd0 by auto
qed

theorem dividend_yield_absent_iff_witness:
  "scenario_prices \<noteq> [] \<and>
   dividend_yield [] start_2023 end_2024 scenario_prices = Inr None \<and>
   window_dividends \<noteq> [] \<and>
   dividend_yield window_dividends start_2023 end_2024 scenario_prices
     = Inr (Some (Fin (31 / 1000))) \<and>
   earlier_dividends \<noteq> [] \<and> in_window start_2023 end_2024 earlier_dividends = [] \<and>
   snd (scenario_prices ! 0) \<noteq> 0 \<and>
   dividend_yield earlier_dividends start_2023 end_2024 scenario_prices = Inr (Some (Fin 0))"
proof -
  have ne: "scenario_prices \<noteq> []" by (simp add: scenario_prices_def)
  have w: "sum_series (in_window start_2023 end_2024 window_dividends) = Fin (31 / 10)"
    by (simp add: sum_series_def in_window_def window_dividends_def start_2023_def end_2024_def
        notna_vals_def vals_def isna_def fsum_def)
  have p: "snd (scenario_prices ! 0) = 100" by (simp add: scenario_prices_def)
  have i: "in_window start_2023 end_2024 earlier_dividends = []"
    by (simp add: in_window_def earlier_dividends_def start_2023_def end_2024_def)
  have n: "window_dividends \<noteq> []" "earlier_dividends \<noteq> []"
    by (simp_all add: window_dividends_def earlier_dividends_def)
  show ?thesis
    using ne n i
      dividend_yield_absent_iff [OF ne, of "[]" start_2023 end_2024]
      dividend_yield_absent_iff [OF ne, of window_dividends start_2023 end_2024]
      dividend_yield_absent_iff [OF ne, of earlier_dividends start_2023 end_2024]
    by (simp add: w p)
qed

text \<open>
  A ticker that paid a dividend before the window and none inside it: no dividend event
  falls in the window, and the yield is present and zero.
\<close>

theorem dividend_yield_zero_counterexample:
  "in_window start_2023 end_2024 earlier_dividends = [] \<and>
   dividend_yield earlier_dividends start_2023 end_2024 scenario_prices = Inr (Some (Fin 0)) \<and>
   dividend_yield earlier_dividends start_2023 end_2024 scenario_prices \<noteq> Inr None"
  by (simp add: dividend_yield_def in_window_def earlier_dividends_def start_2023_def
      end_2024_def scenario_prices_def bind_res_def iloc_first_def adj_close_def
      sum_series_def notna_vals_def vals_def fsum_def)

section \<open>Volatility and Sharpe ratio\<close>

subsection \<open>Subtracting a constant\<close>

lemma isna_fsub_Fin [simp]: "isna (fsub x (Fin c)) = isna x"
  by (cases x) (simp_all add: fsub_def isna_def)

lemma fadd_shift:
  "fadd (fsub x (Fin a)) (fsub y (Fin b)) = fsub (fadd x y) (Fin (a + b))"
  by (cases x; cases y) (simp_all add: fsub_def)

lemma fsum_shift:
  "fsum (map (\<lambda>x. fsub x (Fin c)) xs) = fsub (fsum xs) (Fin (real (length xs) * c))"
proof (induction xs)
  case Nil
  show ?case by (simp add: fsum_def fsub_def)
next
  case (Cons x xs)
  have "fsum (map (\<lambda>x. fsub x (Fin c)) (x # xs))
          = fadd (fsub x (Fin c)) (fsum (map (\<lambda>x. fsub x (Fin c)) xs))"
    by (simp add: fsum_def)
  also have "\<dots> = fsub (fadd x (fsum xs)) (Fin (c + real (length xs) * c))"
    by (simp only: Cons.IH fadd_shift)
  finally show ?case by (simp add: fsum_def algebra_simps)
qed

lemma fdiv_shift:
  "0 < n \<Longrightarrow> fdiv (fsub s (Fin (n * c))) (Fin n) = fsub (fdiv s (Fin n)) (Fin c)"
  by (cases s) (simp_all add: fsub_def diff_divide_distrib)

lemma fsub_shift_both: "fsub (fsub a (Fin c)) (fsub x (Fin c)) = fsub a x"
  by (cases a; cases x) (simp_all add: fsub_def)

lemma sq_dev_shift: "sq_dev (fsub a (Fin c)) (fsub x (Fin c)) = sq_dev a x"
  by (simp add: sq_dev_def fsub_shift_both)

lemma notna_vals_sub:
  "notna_vals (sub (Fin c) s) = map (\<lambda>x. fsub x (Fin c)) (notna_vals s)"
  by (simp add: notna_vals_def sub_def vals_def filter_map comp_def case_prod_unfold)

lemma var_sub: "var (sub (Fin c) s) = var s"
proof -
  let ?xs = "notna_vals s"
  show ?thesis
  proof (cases "length ?xs \<le> 1")
    case True
    then show ?thesis by (simp add: var_def notna_vals_sub)
  next
    case False
    then have n: "0 < real (length ?xs)" by (cases ?xs) simp_all
    have avg: "fdiv (fsum (map (\<lambda>x. fsub x (Fin c)) ?xs)) (Fin (real (length ?xs)))
                 = fsub (fdiv (fsum ?xs) (Fin (real (length ?xs)))) (Fin c)"
      by (simp only: fsum_shift fdiv_shift [OF n])
    show ?thesis
      using False by (simp add: var_def notna_vals_sub avg comp_def sq_dev_shift Let_def)
  qed
qed

lemma std_sub: "std (sub (Fin c) s) = std s"
  by (simp add: std_def var_sub)

text \<open>
  In the arithmetic without rounding, dividing by the standard deviation of the excess
  returns gives the same Sharpe ratio as dividing by that of the raw returns.
\<close>

lemma sharpe_ratio_exact:
  "daily_sharpe_ratio dr
     = fdiv (mean (daily_excess_return dr)) (std (daily_excess_return dr)) \<and>
   std (daily_excess_return dr) = daily_volatility dr"
  by (simp add: daily_sharpe_ratio_def daily_volatility_def daily_excess_return_def std_sub)

subsection \<open>Volatility of finite returns\<close>

lemma sample_variance_nonneg: "2 \<le> length xs \<Longrightarrow> 0 \<le> sample_variance xs"
  unfolding sample_variance_def
  by (intro divide_nonneg_nonneg sum_list_nonneg) auto

lemma var_Fin:
  assumes "notna_vals s = map Fin xs" and "2 \<le> length xs"
  shows "var s = Fin (sample_variance xs)"
proof -
  have sq: "map (sq_dev (Fin a)) (map Fin xs) = map Fin (map (\<lambda>x. (x - a)\<^sup>2) xs)" for a
    by (simp add: sq_dev_def fsub_def power2_eq_square algebra_simps)
  have n: "real (length xs) \<noteq> 0" "real (length xs - 1) \<noteq> 0" "\<not> length xs \<le> 1"
    using assms(2) by auto
  have m: "real (length xs - 1) = real (length xs) - 1"
    using assms(2) by (simp add: of_nat_diff)
  show ?thesis
    using n unfolding var_def assms(1) Let_def
    by (simp add: fsum_Fin sq sample_variance_def m del: map_map)
qed

lemma std_Fin:
  assumes "notna_vals s = map Fin xs" and "2 \<le> length xs"
  shows "std s = Fin (sample_stdev xs)"
  using sample_variance_nonneg [OF assms(2)]
  by (simp add: std_def var_Fin [OF assms] sample_stdev_def)

lemma var_few: "length (notna_vals s) \<le> 1 \<Longrightarrow> var s = NaN"
  by (simp add: var_def)

lemma notna_pct_change_Fin:
  assumes "\<forall>r\<in>set data. snd r \<noteq> 0"
  shows "notna_vals (pct_change (adj_close data)) = map Fin (returns_of (map snd data))"
proof (cases data)
  case Nil
  then show ?thesis by (simp add: notna_vals_def returns_of_def)
next
  case (Cons r rs)
  have nz: "snd r \<noteq> 0" "\<forall>q\<in>set (map snd rs). q \<noteq> 0" using assms Cons by auto
  have "pct_vals (map (\<lambda>r. Fin (snd r)) data)
          = NaN # map2 (\<lambda>a b. Fin (b / a - 1)) (snd r # map snd rs) (map snd rs)"
    using pct_vals_Fin [OF nz] by (simp add: Cons comp_def)
  also have "map2 (\<lambda>a b. Fin (b / a - 1)) (snd r # map snd rs) (map snd rs)
          = map Fin (returns_of (map snd data))"
    by (simp add: returns_of_def Cons case_prod_unfold)
  finally show ?thesis
    by (simp add: notna_vals_def isna_def comp_def)
qed

lemma length_returns_of: "length (returns_of ps) = length ps - 1"
  by (simp add: returns_of_def)

lemma length_notna_pct_change: "length (notna_vals (pct_change (adj_close data))) \<le> length data - 1"
proof (cases data)
  case Nil
  then show ?thesis by (simp add: notna_vals_def)
next
  case (Cons r rs)
  have "length (filter (\<lambda>v. \<not> isna v) vs) \<le> length vs" for vs :: "fl list" by simp
  then show ?thesis
    unfolding notna_vals_def vals_pct_change vals_adj_close Cons
    by (simp add: isna_def le_trans [OF length_filter_le])
qed

text \<open>
  Claim C4, amended. On a frame of at least three rows with distinct dates and prices
  other than 0, the annualized volatility is the sample standard deviation (divisor
  \<open>n - 1\<close>) of the daily returns times \<open>sqrt 252\<close>, and is at least 0. On a frame of
  one or two rows there are fewer than two daily returns: the volatility is NaN, which
  is not at least 0.
\<close>

theorem annualized_volatility_nonneg:
  assumes "distinct (map fst data)"
  shows "\<exists>dr. daily_return data = Inr dr \<and>
           (3 \<le> length data \<and> (\<forall>r\<in>set data. snd r \<noteq> 0) \<longrightarrow>
              annualized_volatility dr
                = Fin (sample_stdev (returns_of (map snd data)) * sqrt 252) \<and>
              fle (Fin 0) (annualized_volatility dr)) \<and>
           (length data \<le> 2 \<longrightarrow>
              annualized_volatility dr = NaN \<and> \<not> fle (Fin 0) (annualized_volatility dr))"
proof -
  let ?dr = "pct_change (adj_close data)"
  have a: "annualized_volatility ?dr = Fin (sample_stdev (returns_of (map snd data)) * sqrt 252)"
    and b: "fle (Fin 0) (annualized_volatility ?dr)"
    if "3 \<le> length data" and nz: "\<forall>r\<in>set data. snd r \<noteq> 0"
  proof -
    have len: "2 \<le> length (returns_of (map snd data))"
      using that(1) by (simp add: length_returns_of)
    show a: "annualized_volatility ?dr
               = Fin (sample_stdev (returns_of (map snd data)) * sqrt 252)"
      by (simp add: annualized_volatility_def daily_volatility_def
          std_Fin [OF notna_pct_change_Fin [OF nz] len])
    have "0 \<le> sample_stdev (returns_of (map snd data))"
      using sample_variance_nonneg [OF len] by (simp add: sample_stdev_def)
    then show "fle (Fin 0) (annualized_volatility ?dr)"
      unfolding a by simp
  qed
  have c: "annualized_volatility ?dr = NaN" if "length data \<le> 2"
  proof -
    have "length (notna_vals ?dr) \<le> 1"
      using length_notna_pct_change [of data] that by simp
    then show ?thesis
      by (simp add: annualized_volatility_def daily_volatility_def std_def var_few)
  qed
  show ?thesis
    using a b c by (auto simp add: daily_return_distinct [OF assms])
qed


theorem annualized_volatility_nonneg_witness:
  "distinct (map fst scenario_prices) \<and> 3 \<le> length scenario_prices \<and>
   snd (scenario_prices ! 0) \<noteq> 0 \<and> snd (scenario_prices ! 1) \<noteq> 0 \<and>
   snd (scenario_prices ! 2) \<noteq> 0 \<and>
   (\<exists>dr. daily_return scenario_prices = Inr dr \<and> fle (Fin 0) (annualized_volatility dr)) \<and>
   distinct (map fst single_price) \<and> length single_price \<le> 2 \<and>
   (\<exists>dr. daily_return single_price = Inr dr \<and> annualized_volatility dr = NaN)"
proof -
  have d: "distinct (map fst scenario_prices)" "distinct (map fst single_price)"
    by (simp_all add: scenario_prices_def single_price_def)
  have l: "3 \<le> length scenario_prices" "length single_price \<le> 2"
    "\<forall>r\<in>set scenario_prices. snd r \<noteq> 0"
    by (simp_all add: scenario_prices_def single_price_def)
  have n: "snd (scenario_prices ! 0) \<noteq> 0" "snd (scenario_prices ! 1) \<noteq> 0"
    "snd (scenario_prices ! 2) \<noteq> 0"
    by (simp_all add: scenario_prices_def)
  show ?thesis
    using d l n annualized_volatility_nonneg [OF d(1)] annualized_volatility_nonneg [OF d(2)]
    by auto
qed

text \<open>
  A frame of a single row: its only daily return is missing, the standard deviation of
  no value is NaN, and NaN is not at least 0.
\<close>

theorem single_price_volatility_counterexample:
  "single_price \<noteq> [] \<and>
   daily_return single_price = Inr [(1672704000000000000, NaN)] \<and>
   annualized_volatility [(1672704000000000000, NaN)] = NaN \<and>
   \<not> fle (Fin 0) (annualized_volatility [(1672704000000000000, NaN)])"
  by (simp add: single_price_def daily_return_distinct pct_change_def adj_close_def index_def
      vals_def annualized_volatility_def daily_volatility_def std_def var_def notna_vals_def
      isna_def)

section \<open>Beta\<close>

lemma map_of_filter_key:
  "map_of (filter (\<lambda>(k, v). P k) b) d = (if P d then map_of b d else None)"
  by (induction b) auto

lemma map_of_unmatched: "d \<notin> set (index b) \<Longrightarrow> map_of b d = None"
  by (simp add: map_of_eq_None_iff index_def)

lemma align_inner_matched_left: "align_inner (matched a b) b = align_inner a b"
  by (induction a) (auto simp add: align_inner_def matched_def map_of_unmatched)

lemma align_inner_matched_right: "align_inner a (matched b a) = align_inner a b"
proof -
  have "(case map_of (matched b a) (fst r) of None \<Rightarrow> [] | Some y \<Rightarrow> [(snd r, y)])
          = (case map_of b (fst r) of None \<Rightarrow> [] | Some y \<Rightarrow> [(snd r, y)])"
    if "r \<in> set a" for r
    using that by (simp add: matched_def map_of_filter_key index_def)
  then show ?thesis
    by (simp add: align_inner_def case_prod_unfold cong: map_cong)
qed

lemma index_matched_subset: "set (index (matched a b)) \<subseteq> set (index a)"
  by (auto simp add: matched_def index_def)

lemma cov_matched: "cov a b = cov (matched a b) (matched b a)"
proof -
  have "align_inner (matched a b) (matched b a) = align_inner (matched a b) b"
  proof -
    have "(case map_of (matched b a) (fst r) of None \<Rightarrow> [] | Some y \<Rightarrow> [(snd r, y)])
          = (case map_of b (fst r) of None \<Rightarrow> [] | Some y \<Rightarrow> [(snd r, y)])"
      if "r \<in> set (matched a b)" for r
    proof -
      have "fst r \<in> set (index a)" using that by (auto simp add: matched_def index_def)
      then show ?thesis unfolding matched_def [of b a] by (simp add: map_of_filter_key)
    qed
    then show ?thesis
      by (simp add: align_inner_def case_prod_unfold cong: map_cong)
  qed
  then show ?thesis
    by (simp add: cov_def align_inner_matched_left)
qed

text \<open>
  Claim C5, amended. Beta is absent exactly when the benchmark frame is empty or the
  variance of the benchmark's daily returns is exactly 0. Otherwise it is the covariance
  of the ticker's and the benchmark's daily returns divided by that variance. The
  covariance is taken over the dates the two series share: rows of either series on a
  date the other lacks can be removed without changing it. The variance is that of all
  the benchmark's daily returns, matched or not.
\<close>

theorem beta_absent_iff:
  "(beta dr market_data = None \<longleftrightarrow>
      market_data = [] \<or> var (market_return market_data) = Fin 0) \<and>
   (market_data \<noteq> [] \<and> var (market_return market_data) \<noteq> Fin 0 \<longrightarrow>
      beta dr market_data
        = Some (fdiv (cov (matched dr (market_return market_data))
                        (matched (market_return market_data) dr))
                  (var (market_return market_data))))"
  using cov_matched [of dr "market_return market_data"]
  by (simp add: beta_def covariance_def market_variance_def)



lemma daily_return_scenario: "daily_return scenario_prices = Inr scenario_returns"
  by (simp add: daily_return_distinct scenario_prices_def scenario_returns_def pct_change_def
      adj_close_def index_def vals_def fsub_def)

lemma market_return_benchmark_a:
  "market_return benchmark_a =
     [(1672790400000000000, Fin (1 / 10)), (1672876800000000000, Fin (- (1 / 10))),
      (1672963200000000000, Fin 0)]"
  by (simp add: market_return_def benchmark_a_def pct_change_def adj_close_def index_def
      vals_def fsub_def dropna_def isna_def)

lemma market_return_benchmark_b:
  "market_return benchmark_b =
     [(1672790400000000000, Fin (1 / 10)), (1672876800000000000, Fin (- (1 / 10))),
      (1672963200000000000, Fin 1)]"
  by (simp add: market_return_def benchmark_b_def pct_change_def adj_close_def index_def
      vals_def fsub_def dropna_def isna_def)

lemma var_benchmark_a: "var (market_return benchmark_a) = Fin (1 / 100)"
  by (simp add: market_return_benchmark_a var_def notna_vals_def vals_def isna_def fsum_def
      sq_dev_def fsub_def)

lemma var_benchmark_b: "var (market_return benchmark_b) = Fin (103 / 300)"
  by (simp add: market_return_benchmark_b var_def notna_vals_def vals_def isna_def fsum_def
      sq_dev_def fsub_def)

lemma cov_benchmark_a: "cov scenario_returns (market_return benchmark_a) = Fin (19 / 6375)"
  by (simp add: market_return_benchmark_a scenario_returns_def cov_def align_inner_def
      np_cov_def isna_def fsum_def fsub_def)

lemma cov_benchmark_b: "cov scenario_returns (market_return benchmark_b) = Fin (19 / 6375)"
  by (simp add: market_return_benchmark_b scenario_returns_def cov_def align_inner_def
      np_cov_def isna_def fsum_def fsub_def)

theorem beta_absent_iff_witness:
  "benchmark_a \<noteq> [] \<and> var (market_return benchmark_a) \<noteq> Fin 0 \<and>
   beta scenario_returns benchmark_a = Some (Fin (76 / 255)) \<and>
   beta scenario_returns [] = None"
proof -
  have ne: "benchmark_a \<noteq> []" by (simp add: benchmark_a_def)
  have c: "cov (matched scenario_returns (market_return benchmark_a))
             (matched (market_return benchmark_a) scenario_returns) = Fin (19 / 6375)"
    using cov_matched [of scenario_returns "market_return benchmark_a"]
    by (simp add: cov_benchmark_a)
  show ?thesis
    using ne beta_absent_iff [of scenario_returns benchmark_a]
      beta_absent_iff [of scenario_returns "[]"]
    by (simp add: var_benchmark_a c)
qed

text \<open>
  The benchmark has a row on 2023-01-06 and the ticker has none. The two benchmarks have
  the same returns on every date they share with the ticker, yet beta differs between
  them, and neither is the covariance over the variance of the matched returns.
\<close>

theorem beta_unmatched_date_counterexample:
  "daily_return scenario_prices = Inr scenario_returns \<and>
   matched (market_return benchmark_a) scenario_returns
     = matched (market_return benchmark_b) scenario_returns \<and>
   beta scenario_returns benchmark_a = Some (Fin (76 / 255)) \<and>
   beta scenario_returns benchmark_b = Some (Fin (76 / 8755)) \<and>
   fdiv (covariance scenario_returns benchmark_a)
     (var (matched (market_return benchmark_a) scenario_returns)) = Fin (38 / 255)"
proof -
  have m: "matched (market_return benchmark_a) scenario_returns
             = [(1672790400000000000, Fin (1 / 10)), (1672876800000000000, Fin (- (1 / 10)))]"
    "matched (market_return benchmark_b) scenario_returns
             = [(1672790400000000000, Fin (1 / 10)), (1672876800000000000, Fin (- (1 / 10)))]"
    by (simp_all add: market_return_benchmark_a market_return_benchmark_b matched_def
        scenario_returns_def index_def)
  have v: "var [(1672790400000000000, Fin (1 / 10)), (1672876800000000000, Fin (- (1 / 10)))]
             = Fin (1 / 50)"
    by (simp add: var_def notna_vals_def vals_def isna_def fsum_def sq_dev_def fsub_def)
  have ne: "benchmark_a \<noteq> []" "benchmark_b \<noteq> []"
    by (simp_all add: benchmark_a_def benchmark_b_def)
  show ?thesis
    using ne
    by (simp add: daily_return_scenario m v beta_def covariance_def market_variance_def
        var_benchmark_a var_benchmark_b cov_benchmark_a cov_benchmark_b)
qed

section \<open>Year-end table\<close>

lemma series_zip: "zip (index s) (vals s) = s"
  by (simp add: index_def vals_def zip_map_fst_snd)

lemma index_zip [simp]: "length vs = length ds \<Longrightarrow> index (zip ds vs) = ds"
  by (simp add: index_def)

lemma index_fillna [simp]: "index (fillna c s) = index s"
  by (simp add: fillna_def index_def case_prod_unfold comp_def)

lemma index_add [simp]: "index (add c s) = index s"
  by (simp add: add_def index_def case_prod_unfold comp_def)

lemma index_scale [simp]: "index (scale c s) = index s"
  by (simp add: scale_def index_def case_prod_unfold comp_def)

lemma length_index [simp]: "length (index s) = length s"
  by (simp add: index_def)

lemma length_vals [simp]: "length (vals s) = length s"
  by (simp add: vals_def)

lemma index_cumprod [simp]: "index (cumprod s) = index s"
  by (simp add: cumprod_def)

lemma index_investment_value [simp]:
  "index (investment_value initial_investment data) = map fst data"
  by (simp add: investment_value_def cumulative_return_def)

lemma group_vals_series:
  "group_vals (map year (index s)) (vals s) k = vals (filter (\<lambda>(d, v). year d = k) s)"
  by (induction s) (auto simp add: group_vals_def index_def vals_def)

lemma annual_table_rows:
  "annual_table initial_investment data =
     map (\<lambda>k. (k, last_notna
                  (vals (filter (\<lambda>(d, v). year d = k) (investment_value initial_investment data)))))
       (sort (remdups (map year (map fst data))))"
proof -
  have k: "map (\<lambda>(d, p). year d) data = map year (index (investment_value initial_investment data))"
    by (simp add: case_prod_unfold)
  have "annual_table initial_investment data =
     map (\<lambda>k. (k, last_notna
                  (vals (filter (\<lambda>(d, v). year d = k) (investment_value initial_investment data)))))
       (sort (remdups (map year (index (investment_value initial_investment data)))))"
    unfolding annual_table_def groupby_last_def k
    by (simp only: group_vals_series)
  then show ?thesis by simp
qed

lemma last_notna_last: "vs \<noteq> [] \<Longrightarrow> \<not> isna (last vs) \<Longrightarrow> last_notna vs = last vs"
proof (induction vs rule: rev_induct)
  case Nil
  then show ?case by simp
next
  case (snoc v vs)
  then show ?case
    by (cases "filter (\<lambda>v. \<not> isna v) vs") (simp_all add: last_notna_def)
qed

lemma sorted_last_Max:
  fixes xs :: "int list"
  assumes "sorted_wrt (<) xs" and "xs \<noteq> []"
  shows "Max (set xs) = last xs"
proof (rule Max_eqI)
  show "finite (set xs)" by simp
  show "last xs \<in> set xs" using assms(2) by simp
  show "y \<le> last xs" if "y \<in> set xs" for y
    using assms that
  proof (induction xs)
    case Nil
    then show ?case by simp
  next
    case (Cons x xs)
    then show ?case by (cases xs) (auto simp: less_imp_le)
  qed
qed

lemma year_group_last:
  assumes "sorted_wrt (<) (index s)" and "k \<in> year ` set (index s)"
  defines "g \<equiv> filter (\<lambda>(d, v). year d = k) s"
  shows "g \<noteq> []"
    and "fst (last g) = Max (set (filter (\<lambda>d. year d = k) (index s)))"
    and "map_of s (fst (last g)) = Some (snd (last g))"
proof -
  have ig: "index g = filter (\<lambda>d. year d = k) (index s)"
    by (simp add: g_def index_def filter_map comp_def case_prod_unfold)
  show ne: "g \<noteq> []"
    using assms(2) by (auto simp add: g_def index_def filter_empty_conv)
  have "sorted_wrt (<) (index g)"
    unfolding ig using assms(1) by (rule sorted_wrt_filter)
  moreover have "index g \<noteq> []" using ne by (simp add: index_def)
  ultimately have "Max (set (index g)) = last (index g)" by (rule sorted_last_Max)
  then show "fst (last g) = Max (set (filter (\<lambda>d. year d = k) (index s)))"
    using ne by (simp add: ig [symmetric]) (simp add: index_def last_map)
  have "last g \<in> set s" using ne last_in_set [of g] by (auto simp add: g_def)
  moreover have "distinct (map fst s)"
    using assms(1) strict_sorted_iff [of "index s"] by (simp add: index_def)
  ultimately show "map_of s (fst (last g)) = Some (snd (last g))"
    by simp
qed


lemma investment_value_defined:
  assumes "\<forall>r\<in>set data. snd r \<noteq> 0"
    and "w \<in> set (vals (investment_value initial_investment data))"
  shows "\<not> isna w"
proof (cases "data = []")
  case True
  with assms(2) show ?thesis
    by (simp add: investment_value_def vals_cumulative_return)
next
  case False
  have "vals (investment_value initial_investment data)
          = map (\<lambda>r. Fin (of_int initial_investment * (snd r / snd (hd data)))) data"
    by (simp add: investment_value_def vals_cumulative_return_ratio [OF False assms(1)] comp_def)
  with assms(2) show ?thesis by (auto simp add: isna_def)
qed

text \<open>
  Claim C6, amended. For a frame whose dates are strictly increasing, the year-end table
  has one row per calendar year of the frame, in strictly ascending order of year, and it
  is not empty when the frame is not. The value of a row is the last investment value of
  that year that is not NaN. It is the investment value on that year's last trading date
  whenever that value is not NaN, and so always when no price is 0.
\<close>

theorem annual_table_year_end:
  assumes "sorted_wrt (<) (map fst data)"
  shows "sorted_wrt (<) (map fst (annual_table initial_investment data)) \<and>
         set (map fst (annual_table initial_investment data)) = year ` set (map fst data) \<and>
         (data \<noteq> [] \<longrightarrow> annual_table initial_investment data \<noteq> []) \<and>
         (\<forall>(y, v) \<in> set (annual_table initial_investment data).
            v = last_notna (vals (filter (\<lambda>(d, w). year d = y)
                                   (investment_value initial_investment data))) \<and>
            (\<exists>w. value_on (investment_value initial_investment data)
                    (last_trading_date data y) = Some w \<and>
                  (\<not> isna w \<longrightarrow> v = w))) \<and>
         ((\<forall>r\<in>set data. snd r \<noteq> 0) \<longrightarrow>
            (\<forall>(y, v) \<in> set (annual_table initial_investment data).
               value_on (investment_value initial_investment data)
                 (last_trading_date data y) = Some v))"
proof -
  let ?iv = "investment_value initial_investment data"
  let ?T = "annual_table initial_investment data"
  let ?g = "\<lambda>y. filter (\<lambda>(d, w). year d = y) ?iv"
  have keys: "map fst ?T = sort (remdups (map year (map fst data)))"
    by (simp add: annual_table_rows comp_def)
  have c1: "sorted_wrt (<) (map fst ?T)"
    unfolding keys by (simp add: strict_sorted_iff)
  have c2: "set (map fst ?T) = year ` set (map fst data)"
    unfolding keys by (simp add: image_image)
  have c3: "data \<noteq> [] \<longrightarrow> ?T \<noteq> []"
    using c2 by (cases data) auto
  have srt: "sorted_wrt (<) (index ?iv)" using assms by simp
  have row: "v = last_notna (vals (?g y)) \<and> y \<in> year ` set (index ?iv)"
    if "(y, v) \<in> set ?T" for y v
    using that by (auto simp add: annual_table_rows)
  have at_last: "value_on ?iv (last_trading_date data y) = Some (last (vals (?g y)))
                   \<and> ?g y \<noteq> []"
    if "(y, v) \<in> set ?T" for y v
  proof -
    have k: "y \<in> year ` set (index ?iv)" using row [OF that] by simp
    have "map_of ?iv (fst (last (?g y))) = Some (snd (last (?g y)))"
      and "fst (last (?g y)) = last_trading_date data y" and ne: "?g y \<noteq> []"
      using year_group_last [OF srt k] by (simp_all add: last_trading_date_def)
    then show ?thesis by (simp add: value_on_def vals_def last_map)
  qed
  have c4: "v = last_notna (vals (?g y)) \<and>
            (\<exists>w. value_on ?iv (last_trading_date data y) = Some w \<and> (\<not> isna w \<longrightarrow> v = w))"
    if "(y, v) \<in> set ?T" for y v
  proof -
    have "\<not> isna (last (vals (?g y))) \<longrightarrow> v = last (vals (?g y))"
      using row [OF that] at_last [OF that] last_notna_last [of "vals (?g y)"]
      by (simp add: vals_def)
    then show ?thesis using row [OF that] at_last [OF that] by blast
  qed
  have c5: "value_on ?iv (last_trading_date data y) = Some v"
    if nz: "\<forall>r\<in>set data. snd r \<noteq> 0" and yv: "(y, v) \<in> set ?T" for y v
  proof -
    have "vals (?g y) \<noteq> []"
      using at_last [OF yv] by (simp add: vals_def)
    then have "last (vals (?g y)) \<in> set (vals (?g y))"
      by (rule last_in_set)
    then have "last (vals (?g y)) \<in> set (vals ?iv)"
      by (auto simp add: vals_def)
    then have "\<not> isna (last (vals (?g y)))"
      by (rule investment_value_defined [OF nz])
    then show ?thesis
      using row [OF yv] at_last [OF yv] last_notna_last [of "vals (?g y)"]
      by (simp add: vals_def)
  qed
  show ?thesis
    using c1 c2 c3 c4 c5 by blast
qed


lemma years_two_year_prices:
  "year 1703721600000000000 = 2023" "year 1703808000000000000 = 2023"
  "year 1704153600000000000 = 2024"
  by code_simp+

lemma years_2023:
  "year 1672704000000000000 = 2023" "year 1672790400000000000 = 2023"
  "year 1672876800000000000 = 2023"
  by code_simp+

lemma investment_value_two_year_prices:
  "investment_value 1000 two_year_prices =
     [(1703721600000000000, Fin 1000), (1703808000000000000, Fin 1100),
      (1704153600000000000, Fin 1210)]"
  by (simp add: investment_value_def cumulative_return_def two_year_prices_def scale_def
      cumprod_def add_def fillna_def pct_change_def adj_close_def index_def vals_def isna_def
      fsub_def)

lemma annual_table_two_year_prices:
  "annual_table 1000 two_year_prices = [(2023, Fin 1100), (2024, Fin 1210)]"
  unfolding annual_table_def investment_value_two_year_prices
  by (simp add: two_year_prices_def years_two_year_prices groupby_last_def group_vals_def
      last_notna_def vals_def isna_def)

theorem annual_table_year_end_witness:
  "sorted_wrt (<) (map fst two_year_prices) \<and> two_year_prices \<noteq> [] \<and>
   snd (two_year_prices ! 0) \<noteq> 0 \<and> snd (two_year_prices ! 1) \<noteq> 0 \<and>
   snd (two_year_prices ! 2) \<noteq> 0 \<and>
   annual_table 1000 two_year_prices = [(2023, Fin 1100), (2024, Fin 1210)] \<and>
   last_trading_date two_year_prices 2023 = 1703808000000000000 \<and>
   \<not> isna (Fin 1100) \<and>
   value_on (investment_value 1000 two_year_prices) (last_trading_date two_year_prices 2023)
     = Some (Fin 1100)"
proof -
  have s: "sorted_wrt (<) (map fst two_year_prices)"
    by (simp add: two_year_prices_def)
  have nz: "\<forall>r\<in>set two_year_prices. snd r \<noteq> 0"
    by (simp add: two_year_prices_def)
  have l: "last_trading_date two_year_prices 2023 = 1703808000000000000"
    by (simp add: last_trading_date_def two_year_prices_def years_two_year_prices)
  have "\<forall>(y, v) \<in> set (annual_table 1000 two_year_prices).
          value_on (investment_value 1000 two_year_prices) (last_trading_date two_year_prices y)
            = Some v"
    using annual_table_year_end [OF s, of 1000] nz by blast
  then have v: "value_on (investment_value 1000 two_year_prices)
          (last_trading_date two_year_prices 2023) = Some (Fin 1100)"
    unfolding annual_table_two_year_prices by simp
  have p: "two_year_prices \<noteq> []" "snd (two_year_prices ! 0) \<noteq> 0"
    "snd (two_year_prices ! 1) \<noteq> 0" "snd (two_year_prices ! 2) \<noteq> 0"
    by (simp_all add: two_year_prices_def)
  show ?thesis
    using s p l v annual_table_two_year_prices by (simp add: isna_def)
qed

text \<open>
  With the prices 0, 5 and 0 the investment values are 1000, infinity and NaN. The row of
  2023 holds infinity, the last value that is not NaN, while the investment value on the
  year's last trading date, 2023-01-05, is NaN.
\<close>

theorem annual_table_zero_price_counterexample:
  "sorted_wrt (<) (map fst zero_prices) \<and> zero_prices \<noteq> [] \<and>
   investment_value 1000 zero_prices =
     [(1672704000000000000, Fin 1000), (1672790400000000000, PInf),
      (1672876800000000000, NaN)] \<and>
   annual_table 1000 zero_prices = [(2023, PInf)] \<and>
   last_trading_date zero_prices 2023 = 1672876800000000000 \<and>
   value_on (investment_value 1000 zero_prices) (last_trading_date zero_prices 2023) = Some NaN"
proof -
  have iv: "investment_value 1000 zero_prices =
     [(1672704000000000000, Fin 1000), (1672790400000000000, PInf),
      (1672876800000000000, NaN)]"
    by (simp add: investment_value_def cumulative_return_def zero_prices_def scale_def
        cumprod_def add_def fillna_def pct_change_def adj_close_def index_def vals_def isna_def
        fsub_def inf_of_sign_def)
  have t: "annual_table 1000 zero_prices = [(2023, PInf)]"
    unfolding annual_table_def iv
    by (simp add: zero_prices_def years_2023 groupby_last_def group_vals_def
        last_notna_def vals_def isna_def)
  have l: "last_trading_date zero_prices 2023 = 1672876800000000000"
    by (simp add: last_trading_date_def zero_prices_def years_2023)
  show ?thesis
    unfolding iv t l by (simp add: zero_prices_def value_on_def)
qed

section \<open>Binary64 rounding\<close>

text \<open>The integer square root is the largest integer whose square is not above \<open>n\<close>.\<close>

lemma isqrt_bits_correct:
  "0 \<le> r \<Longrightarrow> r * r \<le> n \<Longrightarrow> n < (r + 2 ^ Suc b) * (r + 2 ^ Suc b) \<Longrightarrow>
     isqrt_bits b n r * isqrt_bits b n r \<le> n \<and>
     n < (isqrt_bits b n r + 1) * (isqrt_bits b n r + 1)"
proof (induction b arbitrary: r)
  case 0
  then show ?case by (auto simp add: algebra_simps)
next
  case (Suc b)
  show ?case
  proof (cases "(r + 2 ^ Suc b) * (r + 2 ^ Suc b) \<le> n")
    case True
    have "n < (r + 2 ^ Suc b + 2 ^ Suc b) * (r + 2 ^ Suc b + 2 ^ Suc b)"
      using Suc.prems(3) by (simp add: algebra_simps)
    with True Suc.prems(1) show ?thesis
      using Suc.IH [of "r + 2 ^ Suc b"] by simp
  next
    case False
    with Suc.prems show ?thesis
      using Suc.IH [of r] by simp
  qed
qed

lemma isqrt_correct:
  assumes "0 \<le> n"
  shows "isqrt n * isqrt n \<le> n \<and> n < (isqrt n + 1) * (isqrt n + 1)"
proof (cases "n = 0")
  case True
  then show ?thesis by (simp add: isqrt_def)
next
  case False
  with assms have pos: "0 < n" by simp
  let ?b = "nat (bitlen n) div 2"
  have "nat (bitlen n) \<le> 2 * Suc ?b" by simp
  then have "(2::int) ^ nat (bitlen n) \<le> 2 ^ (2 * Suc ?b)"
    by (intro power_increasing) simp_all
  also have "\<dots> = (0 + 2 ^ Suc ?b) * (0 + 2 ^ Suc ?b)"
    by (simp add: power2_eq_square [symmetric] power_mult [symmetric] mult.commute)
  finally have "n < (0 + 2 ^ Suc ?b) * (0 + 2 ^ Suc ?b)"
    using bitlen_bounds [OF pos] by linarith
  then show ?thesis
    unfolding isqrt_def using assms by (intro isqrt_bits_correct) simp_all
qed

subsection \<open>Evaluating the rounded operations\<close>

lemma bitlen_numeral: "bitlen (numeral k) = bitlen (numeral k div 2) + 1"
  by (subst compute_bitlen) simp

lemma bitlen_one: "bitlen 1 = 1"
  by (subst compute_bitlen) simp

lemma isqrt_bits_numeral:
  "isqrt_bits (numeral k) n r =
     isqrt_bits (pred_numeral k) n
       (if (r + 2 ^ numeral k) * (r + 2 ^ numeral k) \<le> n then r + 2 ^ numeral k else r)"
  by (simp add: numeral_eq_Suc)

lemmas b64_eval = round64_def round_magnitude_def round_scaled_def round_to_double_def
  round_at_def round_half_even_def finish_double_def magnitude_def pow2_def
  bitlen_numeral bitlen_one
  sqrt_magnitude_def sqrt_scaled_def sqrt_sticky_def isqrt_def isqrt_bits_numeral
  add64_def sub64_def mul64_def div64_def fsub_def

lemmas col64_eval = cumulative_return_64_def investment_value_64_def cumprod_64_def add_64_def
  sub_64_def scale_64_def fillna_def pct_change_64_def adj_close_64_def index_def vals_def
  isna_def daily_return_64_def set_column_def dropna_def reindex_def
  mean_64_def var_64_def std_64_def fsum_64_def sq_dev_64_def notna_vals_def
  daily_volatility_64_def daily_excess_return_64_def daily_sharpe_ratio_64_def
  risk_free_rate_def

text \<open>
  Known values: the binary64 numbers nearest to 0.1 and to the square root of 2, numbers
  that are representable, the two neighbours of an odd integer above \<open>2^53\<close>, the largest
  finite value and the overflow just above it, and the ties among the smallest values.
\<close>

lemma round64_known_values:
  "round64 (1 / 10) = Fin (3602879701896397 / 36028797018963968)"
  "round64 100 = Fin 100"
  "round64 (2 ^ 53 + 1) = Fin (2 ^ 53)"
  "round64 (2 ^ 53 + 3) = Fin (2 ^ 53 + 4)"
  "round64 (2 ^ 1024 - 2 ^ 970 - 1) = Fin (2 ^ 1024 - 2 ^ 971)"
  "round64 (2 ^ 1024 - 2 ^ 970) = PInf"
  "round64 (1 / 2 ^ 1075) = Fin 0"
  "round64 (- (3 / 2 ^ 1075)) = Fin (- (1 / 2 ^ 1073))"
  "sqrt64 (Fin 2) = Fin (6369051672525773 / 4503599627370496)"
  "sqrt64 (Fin (1 / 4)) = Fin (1 / 2)"
  by (simp_all add: b64_eval)

subsection \<open>The rounded columns of the example inputs\<close>

lemma cumulative_return_64_compound:
  "cumulative_return_64 compound_prices =
     [(1672704000000000000, Fin 1),
      (1672790400000000000, Fin (2476979795053773 / 2251799813685248)),
      (1672876800000000000, Fin (5449355549118301 / 4503599627370496))]"
  by (simp add: compound_prices_def col64_eval b64_eval)

lemma investment_value_64_compound:
  "investment_value_64 1000 compound_prices =
     [(1672704000000000000, Fin 1000), (1672790400000000000, Fin 1100),
      (1672876800000000000, Fin (5321636278435841 / 4398046511104))]"
  by (simp add: compound_prices_def col64_eval b64_eval)

lemma ratio_64_compound:
  "div64 (Fin 121) (Fin 100) = Fin (1362338887279575 / 1125899906842624)"
  "mul64 (Fin 1000) (div64 (Fin 121) (Fin 100)) = Fin 1210"
  by (simp_all add: b64_eval)

lemma daily_return_64_sharpe: "daily_return_64 sharpe_prices = Inr sharpe_returns"
  by (simp add: sharpe_prices_def sharpe_returns_def col64_eval b64_eval)

lemma sharpe_64_raw:
  "daily_sharpe_ratio_64 sharpe_returns = Fin (4815338008945853 / 2251799813685248)"
  by (simp add: sharpe_returns_def col64_eval b64_eval)

lemma sharpe_64_excess:
  "div64 (mean_64 (daily_excess_return_64 sharpe_returns))
     (std_64 (daily_excess_return_64 sharpe_returns))
   = Fin (4815338008945851 / 2251799813685248)"
  by (simp add: sharpe_returns_def col64_eval b64_eval)

lemma daily_return_64_growth: "daily_return_64 growth_prices = Inr growth_returns"
  by (simp add: growth_prices_def growth_returns_def col64_eval b64_eval)

lemma growth_64_raw:
  "daily_volatility_64 growth_returns
     = Fin (2757880273211543 / 20282409603651670423947251286016)"
  "daily_sharpe_ratio_64 growth_returns = Fin 5147459498296846"
  by (simp_all add: growth_returns_def col64_eval b64_eval)

lemma growth_64_excess:
  "std_64 (daily_excess_return_64 growth_returns) = Fin 0"
  "div64 (mean_64 (daily_excess_return_64 growth_returns))
     (std_64 (daily_excess_return_64 growth_returns)) = PInf"
  by (simp_all add: growth_returns_def col64_eval b64_eval inf_of_sign_def)

section \<open>Identities that hold without rounding only\<close>

text \<open>
  Claim C9, amended. In exact real arithmetic (left of the conjunction, for every
  \<^verbatim>\<open>Daily Return\<close> column) the daily Sharpe ratio of the script, which divides the
  mean excess return by the sample standard deviation of the raw daily returns, equals
  the formulation that divides by the sample standard deviation of the excess returns,
  because that standard deviation does not change when a constant is subtracted. As
  binary64 computes them the two do not coincide for every column with two returns or
  more: for the prices 100, 101 and 103 they differ.
\<close>

theorem sharpe_equivalence_exact_not_binary64:
  "daily_sharpe_ratio dr
     = fdiv (mean (daily_excess_return dr)) (std (daily_excess_return dr)) \<and>
   std (daily_excess_return dr) = daily_volatility dr \<and>
   daily_return_64 sharpe_prices = Inr sharpe_returns \<and>
   daily_sharpe_ratio_64 sharpe_returns
     \<noteq> div64 (mean_64 (daily_excess_return_64 sharpe_returns))
         (std_64 (daily_excess_return_64 sharpe_returns))"
  using sharpe_ratio_exact [of dr]
  by (simp add: daily_return_64_sharpe sharpe_64_raw sharpe_64_excess)

text \<open>
  The prices 100, 101 and 103 have two daily returns. With the standard deviation of the
  raw returns the daily Sharpe ratio is 2.1384396515537376, with that of the excess
  returns it is 2.1384396515537367. With four days of growth by the factor 1.7 the
  first is a finite number and the second is infinite, the excess returns having a
  standard deviation of exactly 0.
\<close>

theorem sharpe_binary64_counterexample:
  "daily_return_64 sharpe_prices = Inr sharpe_returns \<and>
   daily_sharpe_ratio_64 sharpe_returns = Fin (4815338008945853 / 2251799813685248) \<and>
   div64 (mean_64 (daily_excess_return_64 sharpe_returns))
     (std_64 (daily_excess_return_64 sharpe_returns))
     = Fin (4815338008945851 / 2251799813685248) \<and>
   daily_return_64 growth_prices = Inr growth_returns \<and>
   daily_sharpe_ratio_64 growth_returns = Fin 5147459498296846 \<and>
   div64 (mean_64 (daily_excess_return_64 growth_returns))
     (std_64 (daily_excess_return_64 growth_returns)) = PInf"
  using daily_return_64_sharpe sharpe_64_raw sharpe_64_excess daily_return_64_growth
    growth_64_raw(2) growth_64_excess(2)
  by blast

text \<open>
  Claim C10, amended. In exact real arithmetic, for a price series whose adjusted closes
  are all strictly positive the running product telescopes: the cumulative return of row
  \<open>i\<close> is \<open>price[i] / price[0]\<close>, the investment value is the initial investment times
  that ratio, non-negative when the initial investment is, and the total return is
  \<open>price[last] / price[0] - 1\<close>. As binary64 computes them the equalities hold up to
  rounding only: for the prices 100, 110 and 121 the last cumulative return is neither
  the exact quotient 121/100 nor its binary64 value, and the investment value of 1000 is
  not 1210.
\<close>

theorem telescoping_exact_not_binary64:
  assumes "\<forall>r\<in>set data. 0 < snd r" and "i < length data"
  shows "vals (cumulative_return data) ! i = Fin (snd (data ! i) / snd (data ! 0)) \<and>
         vals (investment_value initial_investment data) ! i
           = Fin (of_int initial_investment * (snd (data ! i) / snd (data ! 0))) \<and>
         (0 \<le> initial_investment \<longrightarrow>
            fle (Fin 0) (vals (investment_value initial_investment data) ! i)) \<and>
         total_return data = Inr (Fin (snd (last data) / snd (data ! 0) - 1)) \<and>
         vals (cumulative_return_64 compound_prices) ! 2 \<noteq> Fin (121 / 100) \<and>
         vals (cumulative_return_64 compound_prices) ! 2 \<noteq> div64 (Fin 121) (Fin 100) \<and>
         vals (investment_value_64 1000 compound_prices) ! 2 \<noteq> Fin 1210"
proof -
  have "vals (cumulative_return_64 compound_prices) ! 2 \<noteq> Fin (121 / 100)"
    and "vals (cumulative_return_64 compound_prices) ! 2 \<noteq> div64 (Fin 121) (Fin 100)"
    and "vals (investment_value_64 1000 compound_prices) ! 2 \<noteq> Fin 1210"
    by (simp_all add: cumulative_return_64_compound investment_value_64_compound
        ratio_64_compound vals_def)
  then show ?thesis
    using cumulative_return_ratio_exact [OF assms, of initial_investment] by blast
qed

theorem telescoping_exact_not_binary64_witness:
  "(0::real) < 100 \<and> 0 < (102::real) \<and> 0 < (101::real) \<and>
   vals (cumulative_return scenario_prices) ! 2 = Fin (101 / 100) \<and>
   vals (investment_value 1000 scenario_prices) ! 2 = Fin 1010 \<and>
   fle (Fin 0) (vals (investment_value 1000 scenario_prices) ! 2) \<and>
   total_return scenario_prices = Inr (Fin (1 / 100))"
  using telescoping_exact_not_binary64 [of scenario_prices 2 1000]
  by (simp add: scenario_prices_def)

text \<open>
  The prices 100, 110 and 121: binary64 gives the cumulative returns 1, 1.1 and
  1.2100000000000002, where the binary64 value of 121/100 is 1.21, and the investment
  values 1000, 1100 and 1210.0000000000002. And with a negative initial investment the
  investment value of a positive price series is negative.
\<close>

theorem telescoping_counterexample:
  "vals (cumulative_return_64 compound_prices) ! 2
     = Fin (5449355549118301 / 4503599627370496) \<and>
   div64 (Fin 121) (Fin 100) = Fin (1362338887279575 / 1125899906842624) \<and>
   vals (investment_value_64 1000 compound_prices) ! 2
     = Fin (5321636278435841 / 4398046511104) \<and>
   mul64 (Fin 1000) (div64 (Fin 121) (Fin 100)) = Fin 1210 \<and>
   (0::real) < 100 \<and>
   vals (investment_value (- 1000) single_price) ! 0 = Fin (- 1000) \<and>
   \<not> fle (Fin 0) (vals (investment_value (- 1000) single_price) ! 0)"
proof -
  have c: "vals (cumulative_return_64 compound_prices) ! 2
             = Fin (5449355549118301 / 4503599627370496)"
    and v: "vals (investment_value_64 1000 compound_prices) ! 2
             = Fin (5321636278435841 / 4398046511104)"
    by (simp_all add: cumulative_return_64_compound investment_value_64_compound vals_def)
  have n: "(0::real) < 100"
    "vals (investment_value (- 1000) single_price) ! 0 = Fin (- 1000)"
    "\<not> fle (Fin 0) (vals (investment_value (- 1000) single_price) ! 0)"
    by (simp_all add: investment_value_def vals_cumulative_return isna_def single_price_def)
  show ?thesis
    using c v n ratio_64_compound by blast
qed

section \<open>The years of the window\<close>

text \<open>
  Claim C7. The claim takes \<open>years\<close> to be the day span of the two dates divided by
  365.25. The script counts the whole days of the time elapsed between the two midnights
  in New York, and the night the clocks go forward has 23 hours. From 2023-01-03 to
  2023-07-03 the day span is 181 and the script counts 180, so its \<open>years\<close> is not the
  span over 365.25; from 2023-03-12 to 2023-03-13 the day span is 1, the script counts
  0, and the run on a frame with a row ends with the error of dividing by zero where the
  claim's formula has a value.
\<close>

theorem years_lose_a_day_across_dst:
  "tz_localize new_york_2023 (timestamp_of_date 19360) = 1672722000000000000 \<and>
   tz_localize new_york_2023 (timestamp_of_date 19541) = 1688356800000000000 \<and>
   day_span 19360 19541 = 181 \<and>
   timedelta_days (tz_localize new_york_2023 (timestamp_of_date 19360))
     (tz_localize new_york_2023 (timestamp_of_date 19541)) = 180 \<and>
   years (tz_localize new_york_2023 (timestamp_of_date 19360))
     (tz_localize new_york_2023 (timestamp_of_date 19541))
     \<noteq> of_int (day_span 19360 19541) / 365.25 \<and>
   tz_localize new_york_2023 (timestamp_of_date 19428)
     < tz_localize new_york_2023 (timestamp_of_date 19429) \<and>
   day_span 19428 19429 = 1 \<and>
   timedelta_days (tz_localize new_york_2023 (timestamp_of_date 19428))
     (tz_localize new_york_2023 (timestamp_of_date 19429)) = 0 \<and>
   analyze (fixed_provider sunday_prices []) ''BTC-USD''
     (tz_localize new_york_2023 (timestamp_of_date 19428))
     (tz_localize new_york_2023 (timestamp_of_date 19429)) 1000 = Inl ZeroDivisionError"
proof -
  have s1: "tz_localize new_york_2023 (timestamp_of_date 19360) = 1672722000000000000"
    and e1: "tz_localize new_york_2023 (timestamp_of_date 19541) = 1688356800000000000"
    and s2: "tz_localize new_york_2023 (timestamp_of_date 19428) = 1678597200000000000"
    and e2: "tz_localize new_york_2023 (timestamp_of_date 19429) = 1678680000000000000"
    by (simp_all add: tz_localize_def new_york_2023_def timestamp_of_date_def ns_per_day_def)
  have d1: "timedelta_days 1672722000000000000 1688356800000000000 = 180"
    and d2: "timedelta_days 1678597200000000000 1678680000000000000 = 0"
    by (simp_all add: timedelta_days_def ns_per_day_def)
  have dr: "daily_return sunday_prices = Inr [(1678579200000000000, NaN)]"
    by (simp add: sunday_prices_def daily_return_distinct pct_change_def adj_close_def
        index_def vals_def)
  have tr: "total_return sunday_prices = Inr (Fin 0)"
    by (simp add: total_return_total sunday_prices_def vals_cumulative_return isna_def
        fsub_def)
  have run: "analyze (fixed_provider sunday_prices []) ''BTC-USD''
               1678597200000000000 1678680000000000000 1000 = Inl ZeroDivisionError"
    by (simp add: analyze_def fixed_provider_def bind_res_def dr tr cagr_def years_def d2)
       (simp add: sunday_prices_def)
  show ?thesis
    unfolding s1 e1 s2 e2
    by (simp add: d1 d2 run day_span_def years_def)
qed

end
